theory Spec2Isabelle
  imports Main "HOL-Library.Word"
begin

unbundle bit_operations_syntax

section \<open>Buffers and errors\<close>

text \<open>
  A Node \<open>Buffer\<close> is a sequence of unsigned bytes. JavaScript numbers that hold
  lengths, offsets and decoded unsigned integers are natural numbers here. Every
  \<open>throw\<close> of the source, and every range error raised by a \<open>Buffer\<close> accessor,
  is a value of type \<open>error\<close>; a function that can throw returns \<open>error + 'a\<close>.
\<close>

type_synonym byte = "8 word"
type_synonym buffer = "byte list"

datatype error =
    TooShort              \<comment> \<open>\<open>Packet too short\<close>\<close>
  | BadStartMark          \<comment> \<open>\<open>Invalid start mark\<close>\<close>
  | Incomplete            \<comment> \<open>\<open>Packet data incomplete\<close>\<close>
  | BadEndMark            \<comment> \<open>\<open>Invalid end mark\<close>\<close>
  | ChecksumMismatch      \<comment> \<open>\<open>Checksum mismatch\<close>\<close>
  | UnexpectedCommand     \<comment> \<open>\<open>Unexpected command ID\<close>\<close>
  | RangeError            \<comment> \<open>\<open>ERR_OUT_OF_RANGE\<close> of a \<open>Buffer\<close> read or write\<close>
  | InvalidInput          \<comment> \<open>\<open>MAC address must be 6 bytes\<close>\<close>
  | FormatError           \<comment> \<open>\<open>Invalid MAC address format\<close>\<close>
  | InvalidKeyLength      \<comment> \<open>the cipher rejects a key that is not 16 bytes\<close>
  | WrongFinalBlockLength \<comment> \<open>unpadded cipher input that is not a multiple of 16 bytes\<close>
  | NotConnected          \<comment> \<open>\<open>Not connected to hub\<close>\<close>
  | CommandBusy           \<comment> \<open>\<open>Another command is pending\<close>\<close>
  | CommandTimeout        \<comment> \<open>\<open>Command timeout\<close>\<close>
  | InvalidArgType        \<comment> \<open>the cipher is given no key\<close>

definition bindE :: "error + 'a \<Rightarrow> ('a \<Rightarrow> error + 'b) \<Rightarrow> error + 'b" where
  "bindE m f = (case m of Inl e \<Rightarrow> Inl e | Inr x \<Rightarrow> f x)"

definition alloc :: "nat \<Rightarrow> buffer" where
  "alloc n = replicate n 0"

definition subarray :: "buffer \<Rightarrow> nat \<Rightarrow> nat \<Rightarrow> buffer" where
  \<comment> \<open>\<open>buf.subarray(start, end)\<close>: both indices are clamped to the buffer.\<close>
  "subarray buf start end = take (end - start) (drop start buf)"

definition overwrite :: "buffer \<Rightarrow> nat \<Rightarrow> buffer \<Rightarrow> buffer" where
  \<comment> \<open>The bytes \<open>bs\<close> stored in place from offset \<open>off\<close>; the caller checks the range.\<close>
  "overwrite buf off bs = take off buf @ bs @ drop (off + length bs) buf"

definition copy :: "buffer \<Rightarrow> buffer \<Rightarrow> nat \<Rightarrow> buffer" where
  \<comment> \<open>\<open>src.copy(target, targetStart)\<close>: copies what fits into the target.\<close>
  "copy src target targetStart =
     (if length target \<le> targetStart then target
      else overwrite target targetStart (take (length target - targetStart) src))"

definition readUInt8 :: "buffer \<Rightarrow> nat \<Rightarrow> error + nat" where
  "readUInt8 buf off =
     (if off + 1 \<le> length buf then Inr (unat (buf ! off)) else Inl RangeError)"

definition readUInt16BE :: "buffer \<Rightarrow> nat \<Rightarrow> error + nat" where
  "readUInt16BE buf off =
     (if off + 2 \<le> length buf
      then Inr (unat (buf ! off) * 256 + unat (buf ! (off + 1)))
      else Inl RangeError)"

definition readUInt32BE :: "buffer \<Rightarrow> nat \<Rightarrow> error + nat" where
  "readUInt32BE buf off =
     (if off + 4 \<le> length buf
      then Inr (unat (buf ! off) * 16777216 + unat (buf ! (off + 1)) * 65536
                + unat (buf ! (off + 2)) * 256 + unat (buf ! (off + 3)))
      else Inl RangeError)"

definition writeUInt8 :: "buffer \<Rightarrow> nat \<Rightarrow> nat \<Rightarrow> error + buffer" where
  "writeUInt8 buf v off =
     (if 255 < v \<or> length buf < off + 1 then Inl RangeError
      else Inr (overwrite buf off [of_nat v]))"

definition writeUInt16BE :: "buffer \<Rightarrow> nat \<Rightarrow> nat \<Rightarrow> error + buffer" where
  "writeUInt16BE buf v off =
     (if 65535 < v \<or> length buf < off + 2 then Inl RangeError
      else Inr (overwrite buf off [of_nat (v div 256), of_nat (v mod 256)]))"

section \<open>Packet codec (SmartikaProtocol.js)\<close>

definition START_MARK_REQUEST :: nat where "START_MARK_REQUEST = 0xFE00"
definition START_MARK_RESPONSE :: nat where "START_MARK_RESPONSE = 0xFE01"
definition END_MARK :: nat where "END_MARK = 0x00FF"

definition computeChecksum :: "buffer \<Rightarrow> nat" where
  \<comment> \<open>\<open>fcs = 0; for each byte: fcs ^= data[i]\<close>\<close>
  "computeChecksum data = fold (\<lambda>b fcs. fcs XOR unat b) data 0"

record packet =
  cmdId :: nat
  dataLen :: nat
  listLen :: nat
  data :: buffer
  isRequest :: bool

definition createPacket :: "nat \<Rightarrow> buffer \<Rightarrow> nat \<Rightarrow> bool \<Rightarrow> error + buffer" where
  "createPacket cmd dat llen isReq =
     (let startMark = (if isReq then START_MARK_REQUEST else START_MARK_RESPONSE);
          dLen = length dat
      in bindE (writeUInt16BE (alloc (6 + dLen)) cmd 0) (\<lambda>f1.
         bindE (writeUInt16BE f1 dLen 2) (\<lambda>f2.
         bindE (writeUInt16BE f2 llen 4) (\<lambda>f3.
         let fcsData = copy dat f3 6;
             fcs = computeChecksum fcsData
         in bindE (writeUInt16BE (alloc (2 + length fcsData + 1 + 2)) startMark 0) (\<lambda>p1.
            bindE (writeUInt8 (copy fcsData p1 2) fcs (2 + length fcsData)) (\<lambda>p3.
            writeUInt16BE p3 END_MARK (2 + length fcsData + 1)))))))"

definition parsePacket :: "buffer \<Rightarrow> error + packet" where
  "parsePacket pkt =
     (if length pkt < 11 then Inl TooShort
      else bindE (readUInt16BE pkt 0) (\<lambda>startMark.
        if startMark \<noteq> START_MARK_REQUEST \<and> startMark \<noteq> START_MARK_RESPONSE
        then Inl BadStartMark
        else bindE (readUInt16BE pkt 2) (\<lambda>cmd.
             bindE (readUInt16BE pkt 4) (\<lambda>dLen.
             bindE (readUInt16BE pkt 6) (\<lambda>llen.
             if length pkt < 8 + dLen + 3 then Inl Incomplete
             else bindE (readUInt8 pkt (8 + dLen)) (\<lambda>fcs.
                  bindE (readUInt16BE pkt (8 + dLen + 1)) (\<lambda>endMark.
                  if endMark \<noteq> END_MARK then Inl BadEndMark
                  else if fcs \<noteq> computeChecksum (subarray pkt 2 (8 + dLen))
                  then Inl ChecksumMismatch
                  else Inr \<lparr>cmdId = cmd, dataLen = dLen, listLen = llen,
                            data = subarray pkt 8 (8 + dLen),
                            isRequest = (startMark = START_MARK_REQUEST)\<rparr>)))))))"

subsection \<open>Wire layout in the words of the specification\<close>

definition be16 :: "buffer \<Rightarrow> nat \<Rightarrow> nat" where
  \<comment> \<open>The unsigned big-endian 16-bit field at an offset, with no range check.\<close>
  "be16 b off = unat (b ! off) * 256 + unat (b ! (off + 1))"

definition u16be :: "nat \<Rightarrow> buffer" where
  "u16be v = [of_nat (v div 256), of_nat (v mod 256)]"

definition wire :: "nat \<Rightarrow> buffer \<Rightarrow> nat \<Rightarrow> bool \<Rightarrow> buffer" where
  \<comment> \<open>Section 6 of the specification: start mark, command, lengths, payload, FCS, end mark.\<close>
  "wire c d l r =
     u16be (if r then 0xFE00 else 0xFE01) @ u16be c @ u16be (length d) @ u16be l @ d
     @ [of_nat (computeChecksum (u16be c @ u16be (length d) @ u16be l @ d))] @ [0x00, 0xFF]"

definition decodeFrame_spec :: "buffer \<Rightarrow> error + packet" where
  \<comment> \<open>The five checks of \<open>decodeFrame\<close> in the order the specification lists them.\<close>
  "decodeFrame_spec b =
     (if length b < 11 then Inl TooShort
      else if be16 b 0 \<noteq> 0xFE00 \<and> be16 b 0 \<noteq> 0xFE01 then Inl BadStartMark
      else if length b < 11 + be16 b 4 then Inl Incomplete
      else if be16 b (9 + be16 b 4) \<noteq> 0x00FF then Inl BadEndMark
      else if computeChecksum (take (6 + be16 b 4) (drop 2 b)) \<noteq> unat (b ! (8 + be16 b 4))
      then Inl ChecksumMismatch
      else Inr \<lparr>cmdId = be16 b 2, dataLen = be16 b 4, listLen = be16 b 6,
                data = take (be16 b 4) (drop 8 b), isRequest = (be16 b 0 = 0xFE00)\<rparr>)"

definition validFrame_spec :: "buffer \<Rightarrow> bool" where
  \<comment> \<open>A buffer that is exactly one frame: total length \<open>11 + dataLen\<close>, a known start
      mark, the end mark, and the FCS of bytes \<open>[2, 8 + dataLen)\<close>.\<close>
  "validFrame_spec f \<longleftrightarrow>
     11 \<le> length f \<and> length f = 11 + be16 f 4
     \<and> (be16 f 0 = 0xFE00 \<or> be16 f 0 = 0xFE01)
     \<and> be16 f (9 + be16 f 4) = 0x00FF
     \<and> computeChecksum (take (6 + be16 f 4) (drop 2 f)) = unat (f ! (8 + be16 f 4))"

section \<open>The block cipher used by Node's \<open>crypto\<close> module\<close>

text \<open>
  \<open>SmartikaCrypto.js\<close> calls \<open>crypto.createCipheriv\<close> and \<open>crypto.createDecipheriv\<close>
  with \<open>aes-128-ecb\<close> and \<open>aes-128-cbc\<close> and automatic padding switched off. The
  cipher is not code of the repository; it is AES-128 as FIPS 197 defines it, on a state of
  16 bytes in input order (column by column). The definitions avoid \<open>let\<close> so that the
  simplifier evaluates them innermost first.
\<close>

definition SBOX :: "byte list list" where
  \<comment> \<open>FIPS 197, figure 7: row = high nibble, column = low nibble.\<close>
  "SBOX =
     [
      [0x63, 0x7C, 0x77, 0x7B, 0xF2, 0x6B, 0x6F, 0xC5, 0x30, 0x01, 0x67, 0x2B, 0xFE, 0xD7, 0xAB, 0x76],
      [0xCA, 0x82, 0xC9, 0x7D, 0xFA, 0x59, 0x47, 0xF0, 0xAD, 0xD4, 0xA2, 0xAF, 0x9C, 0xA4, 0x72, 0xC0],
      [0xB7, 0xFD, 0x93, 0x26, 0x36, 0x3F, 0xF7, 0xCC, 0x34, 0xA5, 0xE5, 0xF1, 0x71, 0xD8, 0x31, 0x15],
      [0x04, 0xC7, 0x23, 0xC3, 0x18, 0x96, 0x05, 0x9A, 0x07, 0x12, 0x80, 0xE2, 0xEB, 0x27, 0xB2, 0x75],
      [0x09, 0x83, 0x2C, 0x1A, 0x1B, 0x6E, 0x5A, 0xA0, 0x52, 0x3B, 0xD6, 0xB3, 0x29, 0xE3, 0x2F, 0x84],
      [0x53, 0xD1, 0x00, 0xED, 0x20, 0xFC, 0xB1, 0x5B, 0x6A, 0xCB, 0xBE, 0x39, 0x4A, 0x4C, 0x58, 0xCF],
      [0xD0, 0xEF, 0xAA, 0xFB, 0x43, 0x4D, 0x33, 0x85, 0x45, 0xF9, 0x02, 0x7F, 0x50, 0x3C, 0x9F, 0xA8],
      [0x51, 0xA3, 0x40, 0x8F, 0x92, 0x9D, 0x38, 0xF5, 0xBC, 0xB6, 0xDA, 0x21, 0x10, 0xFF, 0xF3, 0xD2],
      [0xCD, 0x0C, 0x13, 0xEC, 0x5F, 0x97, 0x44, 0x17, 0xC4, 0xA7, 0x7E, 0x3D, 0x64, 0x5D, 0x19, 0x73],
      [0x60, 0x81, 0x4F, 0xDC, 0x22, 0x2A, 0x90, 0x88, 0x46, 0xEE, 0xB8, 0x14, 0xDE, 0x5E, 0x0B, 0xDB],
      [0xE0, 0x32, 0x3A, 0x0A, 0x49, 0x06, 0x24, 0x5C, 0xC2, 0xD3, 0xAC, 0x62, 0x91, 0x95, 0xE4, 0x79],
      [0xE7, 0xC8, 0x37, 0x6D, 0x8D, 0xD5, 0x4E, 0xA9, 0x6C, 0x56, 0xF4, 0xEA, 0x65, 0x7A, 0xAE, 0x08],
      [0xBA, 0x78, 0x25, 0x2E, 0x1C, 0xA6, 0xB4, 0xC6, 0xE8, 0xDD, 0x74, 0x1F, 0x4B, 0xBD, 0x8B, 0x8A],
      [0x70, 0x3E, 0xB5, 0x66, 0x48, 0x03, 0xF6, 0x0E, 0x61, 0x35, 0x57, 0xB9, 0x86, 0xC1, 0x1D, 0x9E],
      [0xE1, 0xF8, 0x98, 0x11, 0x69, 0xD9, 0x8E, 0x94, 0x9B, 0x1E, 0x87, 0xE9, 0xCE, 0x55, 0x28, 0xDF],
      [0x8C, 0xA1, 0x89, 0x0D, 0xBF, 0xE6, 0x42, 0x68, 0x41, 0x99, 0x2D, 0x0F, 0xB0, 0x54, 0xBB, 0x16]
     ]"

definition INV_SBOX :: "byte list list" where
  \<comment> \<open>FIPS 197, figure 14.\<close>
  "INV_SBOX =
     [
      [0x52, 0x09, 0x6A, 0xD5, 0x30, 0x36, 0xA5, 0x38, 0xBF, 0x40, 0xA3, 0x9E, 0x81, 0xF3, 0xD7, 0xFB],
      [0x7C, 0xE3, 0x39, 0x82, 0x9B, 0x2F, 0xFF, 0x87, 0x34, 0x8E, 0x43, 0x44, 0xC4, 0xDE, 0xE9, 0xCB],
      [0x54, 0x7B, 0x94, 0x32, 0xA6, 0xC2, 0x23, 0x3D, 0xEE, 0x4C, 0x95, 0x0B, 0x42, 0xFA, 0xC3, 0x4E],
      [0x08, 0x2E, 0xA1, 0x66, 0x28, 0xD9, 0x24, 0xB2, 0x76, 0x5B, 0xA2, 0x49, 0x6D, 0x8B, 0xD1, 0x25],
      [0x72, 0xF8, 0xF6, 0x64, 0x86, 0x68, 0x98, 0x16, 0xD4, 0xA4, 0x5C, 0xCC, 0x5D, 0x65, 0xB6, 0x92],
      [0x6C, 0x70, 0x48, 0x50, 0xFD, 0xED, 0xB9, 0xDA, 0x5E, 0x15, 0x46, 0x57, 0xA7, 0x8D, 0x9D, 0x84],
      [0x90, 0xD8, 0xAB, 0x00, 0x8C, 0xBC, 0xD3, 0x0A, 0xF7, 0xE4, 0x58, 0x05, 0xB8, 0xB3, 0x45, 0x06],
      [0xD0, 0x2C, 0x1E, 0x8F, 0xCA, 0x3F, 0x0F, 0x02, 0xC1, 0xAF, 0xBD, 0x03, 0x01, 0x13, 0x8A, 0x6B],
      [0x3A, 0x91, 0x11, 0x41, 0x4F, 0x67, 0xDC, 0xEA, 0x97, 0xF2, 0xCF, 0xCE, 0xF0, 0xB4, 0xE6, 0x73],
      [0x96, 0xAC, 0x74, 0x22, 0xE7, 0xAD, 0x35, 0x85, 0xE2, 0xF9, 0x37, 0xE8, 0x1C, 0x75, 0xDF, 0x6E],
      [0x47, 0xF1, 0x1A, 0x71, 0x1D, 0x29, 0xC5, 0x89, 0x6F, 0xB7, 0x62, 0x0E, 0xAA, 0x18, 0xBE, 0x1B],
      [0xFC, 0x56, 0x3E, 0x4B, 0xC6, 0xD2, 0x79, 0x20, 0x9A, 0xDB, 0xC0, 0xFE, 0x78, 0xCD, 0x5A, 0xF4],
      [0x1F, 0xDD, 0xA8, 0x33, 0x88, 0x07, 0xC7, 0x31, 0xB1, 0x12, 0x10, 0x59, 0x27, 0x80, 0xEC, 0x5F],
      [0x60, 0x51, 0x7F, 0xA9, 0x19, 0xB5, 0x4A, 0x0D, 0x2D, 0xE5, 0x7A, 0x9F, 0x93, 0xC9, 0x9C, 0xEF],
      [0xA0, 0xE0, 0x3B, 0x4D, 0xAE, 0x2A, 0xF5, 0xB0, 0xC8, 0xEB, 0xBB, 0x3C, 0x83, 0x53, 0x99, 0x61],
      [0x17, 0x2B, 0x04, 0x7E, 0xBA, 0x77, 0xD6, 0x26, 0xE1, 0x69, 0x14, 0x63, 0x55, 0x21, 0x0C, 0x7D]
     ]"

definition sub_byte :: "byte \<Rightarrow> byte" where
  "sub_byte x = SBOX ! unat (drop_bit 4 x) ! unat (x AND 0x0F)"

definition inv_sub_byte :: "byte \<Rightarrow> byte" where
  "inv_sub_byte x = INV_SBOX ! unat (drop_bit 4 x) ! unat (x AND 0x0F)"

definition xor_bytes :: "buffer \<Rightarrow> buffer \<Rightarrow> buffer" where
  "xor_bytes xs ys = map (\<lambda>(x, y). x XOR y) (zip xs ys)"

definition xtime :: "byte \<Rightarrow> byte" where
  \<comment> \<open>Multiplication by \<open>x\<close> in GF(2^8) modulo \<open>x^8 + x^4 + x^3 + x + 1\<close>.\<close>
  "xtime x = (if bit x 7 then push_bit 1 x XOR 0x1B else push_bit 1 x)"

definition mix_col :: "byte \<Rightarrow> byte \<Rightarrow> byte \<Rightarrow> byte \<Rightarrow> buffer" where
  "mix_col a0 a1 a2 a3 =
     [xtime a0 XOR (xtime a1 XOR a1) XOR a2 XOR a3,
      a0 XOR xtime a1 XOR (xtime a2 XOR a2) XOR a3,
      a0 XOR a1 XOR xtime a2 XOR (xtime a3 XOR a3),
      (xtime a0 XOR a0) XOR a1 XOR a2 XOR xtime a3]"

definition mix_columns :: "buffer \<Rightarrow> buffer" where
  "mix_columns s =
     mix_col (s ! 0) (s ! 1) (s ! 2) (s ! 3) @ mix_col (s ! 4) (s ! 5) (s ! 6) (s ! 7)
     @ mix_col (s ! 8) (s ! 9) (s ! 10) (s ! 11) @ mix_col (s ! 12) (s ! 13) (s ! 14) (s ! 15)"

definition gmul9 :: "byte \<Rightarrow> byte" where
  "gmul9 a = xtime (xtime (xtime a)) XOR a"

definition gmul11 :: "byte \<Rightarrow> byte" where
  "gmul11 a = xtime (xtime (xtime a)) XOR xtime a XOR a"

definition gmul13 :: "byte \<Rightarrow> byte" where
  "gmul13 a = xtime (xtime (xtime a)) XOR xtime (xtime a) XOR a"

definition gmul14 :: "byte \<Rightarrow> byte" where
  "gmul14 a = xtime (xtime (xtime a)) XOR xtime (xtime a) XOR xtime a"

definition inv_mix_col :: "byte \<Rightarrow> byte \<Rightarrow> byte \<Rightarrow> byte \<Rightarrow> buffer" where
  "inv_mix_col a0 a1 a2 a3 =
     [gmul14 a0 XOR gmul11 a1 XOR gmul13 a2 XOR gmul9 a3,
      gmul9 a0 XOR gmul14 a1 XOR gmul11 a2 XOR gmul13 a3,
      gmul13 a0 XOR gmul9 a1 XOR gmul14 a2 XOR gmul11 a3,
      gmul11 a0 XOR gmul13 a1 XOR gmul9 a2 XOR gmul14 a3]"

definition inv_mix_columns :: "buffer \<Rightarrow> buffer" where
  "inv_mix_columns s =
     inv_mix_col (s ! 0) (s ! 1) (s ! 2) (s ! 3) @ inv_mix_col (s ! 4) (s ! 5) (s ! 6) (s ! 7)
     @ inv_mix_col (s ! 8) (s ! 9) (s ! 10) (s ! 11)
     @ inv_mix_col (s ! 12) (s ! 13) (s ! 14) (s ! 15)"

definition shift_rows :: "buffer \<Rightarrow> buffer" where
  "shift_rows s = map (\<lambda>i. s ! i) [0, 5, 10, 15, 4, 9, 14, 3, 8, 13, 2, 7, 12, 1, 6, 11]"

definition inv_shift_rows :: "buffer \<Rightarrow> buffer" where
  "inv_shift_rows s = map (\<lambda>i. s ! i) [0, 13, 10, 7, 4, 1, 14, 11, 8, 5, 2, 15, 12, 9, 6, 3]"

definition sub_bytes :: "buffer \<Rightarrow> buffer" where
  "sub_bytes s = map sub_byte s"

definition inv_sub_bytes :: "buffer \<Rightarrow> buffer" where
  "inv_sub_bytes s = map inv_sub_byte s"

fun xor_chain :: "buffer \<Rightarrow> buffer list \<Rightarrow> buffer" where
  "xor_chain prev [] = []"
| "xor_chain prev (w # ws) = xor_bytes w prev @ xor_chain (xor_bytes w prev) ws"

definition next_round_key :: "byte \<Rightarrow> buffer \<Rightarrow> buffer" where
  \<comment> \<open>Four more words of the key schedule: \<open>w[i] = w[i-4] XOR w[i-1]\<close>, the first of
      them after \<open>SubWord\<close>, \<open>RotWord\<close> and the round constant.\<close>
  "next_round_key rc k =
     xor_chain [sub_byte (k ! 13) XOR rc, sub_byte (k ! 14), sub_byte (k ! 15), sub_byte (k ! 12)]
       [take 4 k, take 4 (drop 4 k), take 4 (drop 8 k), take 4 (drop 12 k)]"

definition RCON :: "byte list" where
  "RCON = [0x01, 0x02, 0x04, 0x08, 0x10, 0x20, 0x40, 0x80, 0x1B, 0x36]"

fun key_expansion :: "byte list \<Rightarrow> buffer \<Rightarrow> buffer list" where
  "key_expansion [] k = [k]"
| "key_expansion (rc # rcs) k = k # key_expansion rcs (next_round_key rc k)"

definition cipher_round :: "buffer \<Rightarrow> buffer \<Rightarrow> buffer" where
  "cipher_round k s = xor_bytes (mix_columns (shift_rows (sub_bytes s))) k"

definition final_round :: "buffer \<Rightarrow> buffer \<Rightarrow> buffer" where
  "final_round k s = xor_bytes (shift_rows (sub_bytes s)) k"

definition cipher :: "buffer list \<Rightarrow> buffer \<Rightarrow> buffer" where
  "cipher ks block =
     final_round (last ks) (fold cipher_round (butlast (tl ks)) (xor_bytes block (hd ks)))"

definition inv_cipher_round :: "buffer \<Rightarrow> buffer \<Rightarrow> buffer" where
  "inv_cipher_round k s = inv_mix_columns (xor_bytes (inv_sub_bytes (inv_shift_rows s)) k)"

definition inv_final_round :: "buffer \<Rightarrow> buffer \<Rightarrow> buffer" where
  "inv_final_round k s = xor_bytes (inv_sub_bytes (inv_shift_rows s)) k"

definition inv_cipher :: "buffer list \<Rightarrow> buffer \<Rightarrow> buffer" where
  "inv_cipher ks block =
     inv_final_round (hd ks)
       (fold inv_cipher_round (rev (butlast (tl ks))) (xor_bytes block (last ks)))"

definition aes128_encrypt_block :: "buffer \<Rightarrow> buffer \<Rightarrow> buffer" where
  "aes128_encrypt_block key block = cipher (key_expansion RCON key) block"

definition aes128_decrypt_block :: "buffer \<Rightarrow> buffer \<Rightarrow> buffer" where
  "aes128_decrypt_block key block = inv_cipher (key_expansion RCON key) block"

definition blocks :: "buffer \<Rightarrow> buffer list" where
  "blocks msg = map (\<lambda>i. take 16 (drop (16 * i) msg)) [0..<length msg div 16]"

fun cbc_encrypt_blocks :: "buffer \<Rightarrow> buffer \<Rightarrow> buffer list \<Rightarrow> buffer" where
  "cbc_encrypt_blocks key prev [] = []"
| "cbc_encrypt_blocks key prev (p # ps) =
     (let c = aes128_encrypt_block key (xor_bytes p prev)
      in c @ cbc_encrypt_blocks key c ps)"

fun cbc_decrypt_blocks :: "buffer \<Rightarrow> buffer \<Rightarrow> buffer list \<Rightarrow> buffer" where
  "cbc_decrypt_blocks key prev [] = []"
| "cbc_decrypt_blocks key prev (c # cs) =
     xor_bytes (aes128_decrypt_block key c) prev @ cbc_decrypt_blocks key c cs"

text \<open>
  \<open>createCipheriv\<close> rejects a key that is not 16 bytes. With \<open>setAutoPadding(false)\<close>,
  \<open>final()\<close> raises when the input is not a whole number of blocks.
\<close>

definition aes_128_ecb_encrypt :: "buffer \<Rightarrow> buffer \<Rightarrow> error + buffer" where
  "aes_128_ecb_encrypt key msg =
     (if length key \<noteq> 16 then Inl InvalidKeyLength
      else if length msg mod 16 \<noteq> 0 then Inl WrongFinalBlockLength
      else Inr (concat (map (aes128_encrypt_block key) (blocks msg))))"

definition aes_128_cbc_encrypt :: "buffer \<Rightarrow> buffer \<Rightarrow> buffer \<Rightarrow> error + buffer" where
  "aes_128_cbc_encrypt key iv msg =
     (if length key \<noteq> 16 then Inl InvalidKeyLength
      else if length msg mod 16 \<noteq> 0 then Inl WrongFinalBlockLength
      else Inr (cbc_encrypt_blocks key iv (blocks msg)))"

definition aes_128_cbc_decrypt :: "buffer \<Rightarrow> buffer \<Rightarrow> buffer \<Rightarrow> error + buffer" where
  "aes_128_cbc_decrypt key iv msg =
     (if length key \<noteq> 16 then Inl InvalidKeyLength
      else if length msg mod 16 \<noteq> 0 then Inl WrongFinalBlockLength
      else Inr (cbc_decrypt_blocks key iv (blocks msg)))"

section \<open>Key derivation and encryption (SmartikaCrypto.js)\<close>

definition PRIVATE_KEY :: buffer where
  "PRIVATE_KEY =
     [
     0x42, 0x6B, 0xD6, 0xCD, 0x00, 0x59, 0x5B, 0x03, 0xFC, 0xCB, 0xF4, 0xDD, 0x09, 0x25, 0x85, 0x1B,
     0x3F, 0x91, 0x93, 0x81, 0xB3, 0x19, 0xB2, 0xD1, 0x41, 0x5B, 0xF7, 0x7D, 0xFD, 0x4F, 0x4C, 0xD3,
     0x5E, 0x00, 0xE1, 0xC0, 0x89, 0xA1, 0x94, 0xD4, 0xF6, 0xEA, 0x77, 0xAA, 0xC5, 0x1B, 0x66, 0x67,
     0xEE, 0x96, 0xCD, 0x6E, 0xC3, 0x7D, 0x8A, 0xF1, 0xD0, 0x2A, 0x10, 0x98, 0xA7, 0xF5, 0xB1, 0xC3,
     0x90, 0x3A, 0x4A, 0xB7, 0xB9, 0xE5, 0x0E, 0x47, 0xE5, 0xA0, 0xD2, 0x1B, 0x17, 0xD0, 0x8B, 0x5A,
     0x55, 0x7C, 0x50, 0xBA, 0x02, 0x66, 0xA7, 0xC1, 0xCC, 0x4D, 0x67, 0x3E, 0xD1, 0xB7, 0xEE, 0xC0,
     0xE3, 0x34, 0x00, 0x1F, 0x89, 0x7A, 0x0E, 0xC7, 0xC0, 0x49, 0x2F, 0xEE, 0x01, 0x7B, 0x94, 0x52,
     0x93, 0x22, 0xC0, 0xB9, 0xBB, 0x2C, 0x46, 0xD1, 0xBD, 0x65, 0x5F, 0x91, 0x56, 0x4B, 0x17, 0xCD
     ]"

definition BASE_KEY :: buffer where
  "BASE_KEY =
     [
     0xB9, 0x43, 0x34, 0xB5, 0xBE, 0xDE, 0x9E, 0x05, 0x58, 0xE2, 0xE6, 0xD8, 0xCE, 0xBA, 0x7E, 0x47
     ]"

definition IV :: buffer where
  "IV =
     [
     0xA7, 0x2D, 0xD1, 0x29, 0x20, 0xDF, 0xAD, 0x61, 0x82, 0x03, 0x98, 0xFA, 0x9E, 0xEF, 0x59, 0x20
     ]"

definition BLOCK_SIZE :: nat where "BLOCK_SIZE = 16"

definition generateKey :: "buffer \<Rightarrow> error + buffer" where
  "generateKey macAddress =
     (if length macAddress \<noteq> 6 then Inl InvalidInput
      else fold (\<lambda>i result.
                   bindE result
                     (aes_128_ecb_encrypt (subarray PRIVATE_KEY (i * 16) ((i + 1) * 16))))
             [0..<8]
             (Inr (BASE_KEY[9 := macAddress ! 0, 7 := macAddress ! 3,
                            13 := macAddress ! 4, 3 := macAddress ! 5])))"

text \<open>
  \<open>crypto.randomBytes\<close> is the only source of nondeterminism: it is the parameter
  \<open>randomBytes\<close>, which returns the requested number of bytes.
\<close>

definition pad :: "(nat \<Rightarrow> buffer) \<Rightarrow> buffer \<Rightarrow> buffer" where
  "pad randomBytes message =
     (let remainder = length message mod BLOCK_SIZE
      in if remainder = 0 then message
         else message @ randomBytes (BLOCK_SIZE - remainder))"

definition encrypt :: "(nat \<Rightarrow> buffer) \<Rightarrow> buffer \<Rightarrow> buffer \<Rightarrow> error + buffer" where
  "encrypt randomBytes message key = aes_128_cbc_encrypt key IV (pad randomBytes message)"

definition decrypt :: "buffer \<Rightarrow> buffer \<Rightarrow> error + buffer" where
  "decrypt message key =
     bindE (aes_128_cbc_decrypt key IV message) (\<lambda>decrypted.
       if length decrypted > 11
       then bindE (readUInt16BE decrypted 0) (\<lambda>startMark.
              if startMark = 0xFE00 \<or> startMark = 0xFE01
              then bindE (readUInt16BE decrypted 4) (\<lambda>dLen.
                     let cmdLen = dLen + 11
                     in if cmdLen \<le> length decrypted
                        then Inr (subarray decrypted 0 cmdLen)
                        else Inr decrypted)
              else Inr decrypted)
       else Inr decrypted)"

text \<open>The recovery of the unpadded length, in the words of the specification.\<close>

definition stripPadding_spec :: "buffer \<Rightarrow> buffer" where
  "stripPadding_spec decrypted =
     (if (be16 decrypted 0 = 0xFE00 \<or> be16 decrypted 0 = 0xFE01)
         \<and> 11 + be16 decrypted 4 \<le> length decrypted
      then take (11 + be16 decrypted 4) decrypted
      else decrypted)"

section \<open>Command payloads (SmartikaProtocol.js)\<close>

definition CMD_DEVICE_DISCOVERY :: nat where "CMD_DEVICE_DISCOVERY = 0x0001"
definition CMD_DEVICE_STATUS :: nat where "CMD_DEVICE_STATUS = 0x0002"
definition CMD_DB_LIST_DEVICE :: nat where "CMD_DB_LIST_DEVICE = 0x0200"
definition CMD_DB_LIST_DEVICE_FULL :: nat where "CMD_DB_LIST_DEVICE_FULL = 0x0203"
definition CMD_PING :: nat where "CMD_PING = 0x0101"
definition CMD_GROUP_LIST :: nat where "CMD_GROUP_LIST = 0x0400"
definition CMD_GROUP_READ :: nat where "CMD_GROUP_READ = 0x0403"

definition DEVICE_TYPES :: "(nat \<times> string) list" where
  "DEVICE_TYPES =
     [(0x00000001, ''Champagne Track''),
      (0x00000005, ''Ceiling Fan''),
      (0x00000007, ''Smart Plug''),
      (0x00000008, ''Mini Wall Washer''),
      (0x00000009, ''Glowbox''),
      (0x0000000B, ''Recessed Lighting''),
      (0x0000000D, ''Water Leakage Sensor''),
      (0x00001001, ''Pendant 1''),
      (0x00001002, ''Pendant 2''),
      (0x00001003, ''Pendant 3''),
      (0x00001004, ''Pendant 4''),
      (0x00001005, ''Pendant 5''),
      (0x00001006, ''Smart Bulb''),
      (0x00001007, ''Spotlight''),
      (0x00001008, ''Sandwich Light 1''),
      (0x00001009, ''Sandwich Light 2''),
      (0x0000100A, ''Sandwich Light 3''),
      (0x00002001, ''Thermostat''),
      (0x00002002, ''Smart Heater''),
      (0x40000001, ''Virtual Light''),
      (0x40000003, ''Virtual Fan''),
      (0x40000004, ''Virtual Plug''),
      (0x40002002, ''Virtual Heater''),
      (0x80000002, ''Remote Control Light''),
      (0x80000004, ''Remote Control Heater''),
      (0x80000006, ''Remote Control Fan''),
      (0x80000008, ''Programmable Remote'')]"

definition DEVICE_TYPE_CATEGORY :: "(nat \<times> string) list" where
  "DEVICE_TYPE_CATEGORY =
     [(0x00000001, ''light''),
      (0x00000005, ''fan''),
      (0x00000007, ''plug''),
      (0x00000008, ''light''),
      (0x00000009, ''light''),
      (0x0000000B, ''light''),
      (0x0000000D, ''sensor''),
      (0x00001001, ''light''),
      (0x00001002, ''light''),
      (0x00001003, ''light''),
      (0x00001004, ''light''),
      (0x00001005, ''light''),
      (0x00001006, ''light''),
      (0x00001007, ''light''),
      (0x00001008, ''light''),
      (0x00001009, ''light''),
      (0x0000100A, ''light''),
      (0x00002001, ''thermostat''),
      (0x00002002, ''thermostat''),
      (0x40000001, ''light''),
      (0x40000003, ''fan''),
      (0x40000004, ''plug''),
      (0x40002002, ''thermostat''),
      (0x80000002, ''remote''),
      (0x80000004, ''remote''),
      (0x80000006, ''remote''),
      (0x80000008, ''remote'')]"

definition hexDigit :: "nat \<Rightarrow> char" where
  "hexDigit n = ''0123456789abcdef'' ! n"

function toString16 :: "nat \<Rightarrow> string" where
  \<comment> \<open>\<open>n.toString(16)\<close>\<close>
  "toString16 n = (if n < 16 then [hexDigit n] else toString16 (n div 16) @ [hexDigit (n mod 16)])"
  by pat_completeness auto
termination
  by (relation "measure id") auto

definition toUpperCase :: "string \<Rightarrow> string" where
  \<comment> \<open>On the ASCII letters, the only ones a hexadecimal string holds.\<close>
  "toUpperCase s =
     map (\<lambda>c. if 97 \<le> (of_char c :: nat) \<and> (of_char c :: nat) \<le> 122
              then char_of (of_char c - 32 :: nat) else c) s"

definition toHex :: "buffer \<Rightarrow> string" where
  \<comment> \<open>\<open>buf.toString('hex')\<close>\<close>
  "toHex buf = concat (map (\<lambda>b. [hexDigit (unat b div 16), hexDigit (unat b mod 16)]) buf)"

definition padStart :: "nat \<Rightarrow> char \<Rightarrow> string \<Rightarrow> string" where
  "padStart n c s = replicate (n - length s) c @ s"

definition readBigUInt64BE :: "buffer \<Rightarrow> nat \<Rightarrow> error + nat" where
  "readBigUInt64BE buf off =
     (if off + 8 \<le> length buf
      then Inr (foldl (\<lambda>acc b. acc * 256 + unat b) 0 (take 8 (drop off buf)))
      else Inl RangeError)"

definition deviceTypeName :: "nat \<Rightarrow> string" where
  \<comment> \<open>\<open>DEVICE_TYPES[typeId] || `Unknown (0x${typeId.toString(16)})`\<close>\<close>
  "deviceTypeName tid =
     (case map_of DEVICE_TYPES tid of
        Some name \<Rightarrow> name
      | None \<Rightarrow> ''Unknown (0x'' @ toString16 tid @ '')'')"

definition deviceCategory :: "nat \<Rightarrow> string" where
  \<comment> \<open>\<open>DEVICE_TYPE_CATEGORY[typeId] || 'unknown'\<close>\<close>
  "deviceCategory tid =
     (case map_of DEVICE_TYPE_CATEGORY tid of Some c \<Rightarrow> c | None \<Rightarrow> ''unknown'')"

record deviceInfo =
  shortAddress :: nat
  typeId :: nat
  typeName :: string
  category :: string

record device = deviceInfo +
  macAddress :: string

text \<open>
  A status entry sets \<open>on\<close>, \<open>brightness\<close>, \<open>temperature\<close>, \<open>speed\<close> or \<open>rawState\<close>
  depending on the category; a property that is not set, or is set to \<open>undefined\<close> by a
  read past the end of the state bytes, is \<open>None\<close>.
\<close>

record deviceStatus = deviceInfo +
  on :: "bool option"
  brightness :: "nat option"
  temperature :: "nat option"
  speed :: "nat option"
  rawState :: "string option"

definition byteAt :: "buffer \<Rightarrow> nat \<Rightarrow> nat option" where
  \<comment> \<open>\<open>buf[i]\<close>: \<open>undefined\<close> past the end, no exception.\<close>
  "byteAt buf i = (if i < length buf then Some (unat (buf ! i)) else None)"

definition isOn :: "buffer \<Rightarrow> bool" where
  \<comment> \<open>\<open>stateData[0] !== 0\<close>, which holds for \<open>undefined\<close> too.\<close>
  "isOn stateData = (byteAt stateData 0 \<noteq> Some 0)"

function discoveryLoop :: "buffer \<Rightarrow> nat \<Rightarrow> nat \<Rightarrow> device list \<Rightarrow> error + device list" where
  "discoveryLoop dat llen i devices =
     (if i < llen \<and> i * 14 < length dat
      then (case readUInt16BE dat (i * 14) of
              Inl e \<Rightarrow> Inl e
            | Inr addr \<Rightarrow>
                (case readUInt32BE dat (i * 14 + 2) of
                   Inl e \<Rightarrow> Inl e
                 | Inr tid \<Rightarrow>
                     discoveryLoop dat llen (i + 1)
                       (devices @
                        [\<lparr>shortAddress = addr, typeId = tid, typeName = deviceTypeName tid,
                          category = deviceCategory tid,
                          macAddress =
                            toUpperCase (toHex (subarray dat (i * 14 + 6) (i * 14 + 14)))\<rparr>])))
      else Inr devices)"
  by pat_completeness auto
termination
  by (relation "measure (\<lambda>(dat, llen, i, devices). llen - i)") auto

definition parseDeviceDiscoveryResponse :: "buffer \<Rightarrow> error + device list" where
  "parseDeviceDiscoveryResponse pkt =
     bindE (parsePacket pkt) (\<lambda>p.
       if cmdId p \<noteq> CMD_DEVICE_DISCOVERY then Inl UnexpectedCommand
       else discoveryLoop (data p) (listLen p) 0 [])"

function dbListFullLoop :: "buffer \<Rightarrow> nat \<Rightarrow> nat \<Rightarrow> device list \<Rightarrow> error + device list" where
  "dbListFullLoop dat llen i devices =
     (if i < llen \<and> i * 14 < length dat
      then (case readUInt16BE dat (i * 14) of
              Inl e \<Rightarrow> Inl e
            | Inr addr \<Rightarrow>
                (case readUInt32BE dat (i * 14 + 2) of
                   Inl e \<Rightarrow> Inl e
                 | Inr tid \<Rightarrow>
                     (case readBigUInt64BE dat (i * 14 + 6) of
                        Inl e \<Rightarrow> Inl e
                      | Inr mac \<Rightarrow>
                          dbListFullLoop dat llen (i + 1)
                            (devices @
                             [\<lparr>shortAddress = addr, typeId = tid,
                               typeName = deviceTypeName tid, category = deviceCategory tid,
                               macAddress =
                                 padStart 16 (CHR ''0'') (toUpperCase (toString16 mac))\<rparr>]))))
      else Inr devices)"
  by pat_completeness auto
termination
  by (relation "measure (\<lambda>(dat, llen, i, devices). llen - i)") auto

definition parseDbListDeviceFullResponse :: "buffer \<Rightarrow> error + device list" where
  "parseDbListDeviceFullResponse pkt =
     bindE (parsePacket pkt) (\<lambda>p.
       if cmdId p \<noteq> CMD_DB_LIST_DEVICE_FULL then Inl UnexpectedCommand
       else dbListFullLoop (data p) (listLen p) 0 [])"

definition statusEntry :: "nat \<Rightarrow> nat \<Rightarrow> nat \<Rightarrow> buffer \<Rightarrow> deviceStatus" where
  \<comment> \<open>The device object built from one entry: the state bytes read by category.\<close>
  "statusEntry addr tid stateLen stateData =
     (let base = \<lparr>shortAddress = addr, typeId = tid, typeName = deviceTypeName tid,
                  category = deviceCategory tid, on = None, brightness = None,
                  temperature = None, speed = None, rawState = None\<rparr>;
          cat = map_of DEVICE_TYPE_CATEGORY tid
      in if cat = Some ''light'' \<and> stateLen \<ge> 3
         then base\<lparr>on := Some (isOn stateData), brightness := byteAt stateData 1,
                   temperature := byteAt stateData 2\<rparr>
         else if cat = Some ''fan'' \<and> stateLen \<ge> 2
         then base\<lparr>on := Some (isOn stateData), speed := byteAt stateData 1\<rparr>
         else if cat = Some ''plug'' \<and> stateLen \<ge> 1
         then base\<lparr>on := Some (isOn stateData)\<rparr>
         else base\<lparr>rawState := Some (toUpperCase (toHex stateData))\<rparr>)"

function statusLoop ::
  "buffer \<Rightarrow> nat \<Rightarrow> nat \<Rightarrow> nat \<Rightarrow> deviceStatus list \<Rightarrow> error + deviceStatus list" where
  "statusLoop dat llen i offset devices =
     (if i < llen \<and> offset < length dat
      then (case readUInt16BE dat offset of
              Inl e \<Rightarrow> Inl e
            | Inr addr \<Rightarrow>
                (case readUInt32BE dat (offset + 2) of
                   Inl e \<Rightarrow> Inl e
                 | Inr tid \<Rightarrow>
                     (case readUInt8 dat (offset + 6) of
                        Inl e \<Rightarrow> Inl e
                      | Inr stateLen \<Rightarrow>
                          statusLoop dat llen (i + 1) (offset + (7 + stateLen))
                            (devices @
                             [statusEntry addr tid stateLen
                                (subarray dat (offset + 7) (offset + 7 + stateLen))]))))
      else Inr devices)"
  by pat_completeness auto
termination
  by (relation "measure (\<lambda>(dat, llen, i, offset, devices). llen - i)") auto

definition parseDeviceStatusResponse :: "buffer \<Rightarrow> error + deviceStatus list" where
  "parseDeviceStatusResponse pkt =
     bindE (parsePacket pkt) (\<lambda>p.
       if cmdId p \<noteq> CMD_DEVICE_STATUS then Inl UnexpectedCommand
       else statusLoop (data p) (listLen p) 0 0 [])"

function idLoop :: "buffer \<Rightarrow> nat \<Rightarrow> nat \<Rightarrow> nat \<Rightarrow> nat list \<Rightarrow> error + nat list" where
  \<comment> \<open>\<open>for (let i = 0; i < listLen; i++) ids.push(data.readUInt16BE(base + i * 2))\<close>\<close>
  "idLoop dat base llen i ids =
     (if i < llen
      then (case readUInt16BE dat (base + i * 2) of
              Inl e \<Rightarrow> Inl e
            | Inr v \<Rightarrow> idLoop dat base llen (i + 1) (ids @ [v]))
      else Inr ids)"
  by pat_completeness auto
termination
  by (relation "measure (\<lambda>(dat, base, llen, i, ids). llen - i)") auto

definition parseDbListDeviceResponse :: "buffer \<Rightarrow> error + nat list" where
  "parseDbListDeviceResponse pkt =
     bindE (parsePacket pkt) (\<lambda>p.
       if cmdId p \<noteq> CMD_DB_LIST_DEVICE then Inl UnexpectedCommand
       else idLoop (data p) 0 (listLen p) 0 [])"

definition createPingRequest :: "error + buffer" where
  "createPingRequest = createPacket CMD_PING (alloc 0) 0 True"

definition createGroupListRequest :: "error + buffer" where
  "createGroupListRequest = createPacket CMD_GROUP_LIST (alloc 0) 0 True"

definition parseGroupListResponse :: "buffer \<Rightarrow> error + nat list" where
  "parseGroupListResponse pkt =
     bindE (parsePacket pkt) (\<lambda>p.
       if cmdId p \<noteq> CMD_GROUP_LIST then Inl UnexpectedCommand
       else idLoop (data p) 0 (listLen p) 0 [])"

definition createGroupReadRequest :: "nat \<Rightarrow> error + buffer" where
  "createGroupReadRequest gid =
     bindE (writeUInt16BE (alloc 2) gid 0) (\<lambda>dat. createPacket CMD_GROUP_READ dat 0 True)"

record groupRead =
  groupId :: nat
  success :: bool
  deviceIds :: "nat list"

definition parseGroupReadResponse :: "buffer \<Rightarrow> error + groupRead" where
  "parseGroupReadResponse pkt =
     bindE (parsePacket pkt) (\<lambda>p.
       if cmdId p \<noteq> CMD_GROUP_READ then Inl UnexpectedCommand
       else bindE (readUInt16BE (data p) 0) (\<lambda>gid.
            bindE (idLoop (data p) 2 (listLen p) 0 []) (\<lambda>ids.
            Inr \<lparr>groupId = gid, success = (gid \<noteq> 0xFFFF), deviceIds = ids\<rparr>)))"

section \<open>Identifier parsing (SmartikaCrypto.js)\<close>

definition hexValue :: "char \<Rightarrow> nat option" where
  "hexValue c =
     (let n = (of_char c :: nat)
      in if 48 \<le> n \<and> n \<le> 57 then Some (n - 48)
         else if 97 \<le> n \<and> n \<le> 102 then Some (n - 87)
         else if 65 \<le> n \<and> n \<le> 70 then Some (n - 55)
         else None)"

fun fromHex :: "string \<Rightarrow> buffer" where
  \<comment> \<open>\<open>Buffer.from(s, 'hex')\<close>: Node decodes pairs of hexadecimal digits and stops,
      without an error, at the first pair that is not one.\<close>
  "fromHex (a # b # rest) =
     (case hexValue a of
        None \<Rightarrow> []
      | Some h \<Rightarrow> (case hexValue b of None \<Rightarrow> [] | Some l \<Rightarrow> of_nat (16 * h + l) # fromHex rest))"
| "fromHex _ = []"

definition parseMacAddress :: "string \<Rightarrow> error + buffer" where
  "parseMacAddress macString =
     (let hex = filter (\<lambda>c. c \<noteq> CHR '':'' \<and> c \<noteq> CHR ''-'') macString
      in if length hex \<noteq> 12 then Inl FormatError else Inr (fromHex hex))"

section \<open>The connection (SmartikaHubConnection.js)\<close>

text \<open>
  The fields of the connection object that the command pipeline reads and writes. A
  pending command \<open>{resolve, reject, timeout}\<close> is a handle \<open>h\<close>: \<open>resolve\<close> and \<open>reject\<close>
  settle promise \<open>h\<close>, recorded in \<open>outcomes\<close>, and \<open>timeout\<close> is timer \<open>h\<close>, armed while
  \<open>h \<in> armed\<close>. \<open>socketWrites\<close> lists what was written to the socket, in order.
\<close>

record connection =
  connected :: bool
  encryptionKey :: "buffer option"
  pendingCommand :: "nat option"
  responseBuffer :: buffer
  socketWrites :: "buffer list"
  armed :: "nat set"
  outcomes :: "nat \<Rightarrow> (error + buffer) option"
  nextHandle :: nat

definition settle :: "nat \<Rightarrow> error + buffer \<Rightarrow> connection \<Rightarrow> connection" where
  \<comment> \<open>\<open>resolve\<close> or \<open>reject\<close>: a promise settles once.\<close>
  "settle h r s = (if outcomes s h = None then s\<lparr>outcomes := (outcomes s)(h \<mapsto> r)\<rparr> else s)"

definition sendCommand ::
  "(nat \<Rightarrow> buffer) \<Rightarrow> buffer \<Rightarrow> nat \<Rightarrow> connection \<Rightarrow> (error + nat) \<times> connection" where
  \<comment> \<open>\<open>Inl e\<close>: the promise is rejected at once. \<open>Inr h\<close>: the promise \<open>h\<close> stays pending
      until \<open>handleData\<close> or the timer settles it.\<close>
  "sendCommand randomBytes request timeoutMs s =
     (if \<not> connected s \<or> encryptionKey s = None then (Inl NotConnected, s)
      else if pendingCommand s \<noteq> None then (Inl CommandBusy, s)
      else (case encrypt randomBytes request (the (encryptionKey s)) of
              Inl e \<Rightarrow> (Inl e, s)
            | Inr encrypted \<Rightarrow>
                (let h = nextHandle s
                 in (Inr h,
                     s\<lparr>nextHandle := h + 1,
                       armed := insert h (armed s),
                       pendingCommand := Some h,
                       responseBuffer := alloc 0,
                       socketWrites := socketWrites s @ [encrypted]\<rparr>))))"

definition commandTimeout :: "nat \<Rightarrow> connection \<Rightarrow> connection" where
  \<comment> \<open>Timer \<open>h\<close> fires: the callback of \<open>setTimeout\<close> in \<open>sendCommand\<close>. A timer that
      was cleared does not fire.\<close>
  "commandTimeout h s =
     (if h \<in> armed s
      then settle h (Inl CommandTimeout)
             (s\<lparr>armed := armed s - {h}, pendingCommand := None, responseBuffer := alloc 0\<rparr>)
      else s)"

definition handleData :: "buffer \<Rightarrow> connection \<Rightarrow> connection" where
  "handleData dat s =
     (let s1 = s\<lparr>responseBuffer := responseBuffer s @ dat\<rparr>
      in case pendingCommand s1 of
           None \<Rightarrow> s1
         | Some h \<Rightarrow>
             if length (responseBuffer s1) > 0
             then (let s2 = s1\<lparr>armed := armed s1 - {h}\<rparr>;
                       decrypted =
                         (case encryptionKey s2 of
                            None \<Rightarrow> Inl InvalidArgType
                          | Some key \<Rightarrow> decrypt (responseBuffer s2) key)
                   in settle h decrypted
                        (s2\<lparr>pendingCommand := None, responseBuffer := alloc 0\<rparr>))
             else s1)"

definition socketClose :: "connection \<Rightarrow> connection" where
  \<comment> \<open>The \<open>close\<close> handler: \<open>this.connected = false\<close>, then a notification and the
      reconnect schedule, which touch no field of the command pipeline.\<close>
  "socketClose s = s\<lparr>connected := False\<rparr>"

section \<open>Group membership (SmartikaHubConnection.js)\<close>

text \<open>
  \<open>getGroupedDeviceIds\<close> awaits one command after another. What the \<open>n\<close>-th awaited
  \<open>sendCommand\<close> of the call delivers for a request (the decrypted response, or the
  rejection) is the parameter \<open>hub n request\<close>.
\<close>

type_synonym hub = "nat \<Rightarrow> buffer \<Rightarrow> error + buffer"

definition listGroups :: "hub \<Rightarrow> nat \<Rightarrow> error + nat list" where
  "listGroups hub n =
     bindE createGroupListRequest (\<lambda>request.
     bindE (hub n request) parseGroupListResponse)"

definition readGroup :: "hub \<Rightarrow> nat \<Rightarrow> nat \<Rightarrow> error + groupRead" where
  "readGroup hub n gid =
     bindE (createGroupReadRequest gid) (\<lambda>request.
     bindE (hub n request) parseGroupReadResponse)"

fun readGroupsLoop :: "hub \<Rightarrow> nat \<Rightarrow> nat list \<Rightarrow> nat set \<Rightarrow> nat set" where
  \<comment> \<open>\<open>for (const groupId of groupIds) { try { ... } catch (err) { log.warn } }\<close>\<close>
  "readGroupsLoop hub n [] groupedDevices = groupedDevices"
| "readGroupsLoop hub n (gid # rest) groupedDevices =
     (case readGroup hub n gid of
        Inl err \<Rightarrow> readGroupsLoop hub (n + 1) rest groupedDevices
      | Inr r \<Rightarrow> readGroupsLoop hub (n + 1) rest (groupedDevices \<union> set (deviceIds r)))"

definition getGroupedDeviceIds :: "hub \<Rightarrow> error + nat set" where
  \<comment> \<open>The outcome of the promise: \<open>Inl\<close> would be a rejection.\<close>
  "getGroupedDeviceIds hub =
     (case listGroups hub 0 of
        Inl err \<Rightarrow> Inr {}
      | Inr groupIds \<Rightarrow> Inr (readGroupsLoop hub 1 groupIds {}))"

definition members :: "hub \<Rightarrow> nat \<Rightarrow> nat \<Rightarrow> nat set" where
  \<comment> \<open>What one group contributes: its member addresses, or nothing when its read fails.\<close>
  "members hub n gid = (case readGroup hub n gid of Inl err \<Rightarrow> {} | Inr r \<Rightarrow> set (deviceIds r))"

section \<open>Concrete inputs for the examples\<close>

definition zeroBytes :: "nat \<Rightarrow> buffer" where
  "zeroBytes n = replicate n 0"

definition testKey :: buffer where
  \<comment> \<open>The key that \<open>generateKey\<close> derives for the hub \<open>00:12:4B:32:89:BB\<close>.\<close>
  "testKey = [0x21, 0x59, 0xE8, 0x2A, 0x78, 0x4E, 0xB1, 0x5A,
              0x4E, 0x1C, 0x25, 0xE1, 0x1C, 0x68, 0x78, 0x26]"

definition readyState :: connection where
  "readyState = \<lparr>connected = True, encryptionKey = Some testKey, pendingCommand = None,
                  responseBuffer = [], socketWrites = [], armed = {},
                  outcomes = (\<lambda>h. None), nextHandle = 0\<rparr>"

definition pingRequest :: buffer where
  \<comment> \<open>The frame of \<open>createPingRequest()\<close>.\<close>
  "pingRequest = [0xFE, 0x00, 0x01, 0x01, 0x00, 0x00, 0x00, 0x00, 0x00, 0x00, 0xFF]"

definition pingCiphertext :: buffer where
  "pingCiphertext = [0xF2, 0xB4, 0x3F, 0x30, 0x45, 0xFC, 0xD1, 0xF8,
                     0xAB, 0xF4, 0x89, 0x74, 0xB6, 0x9C, 0xD0, 0xE5]"

definition busyState :: connection where
  \<comment> \<open>A ping is in flight.\<close>
  "busyState = snd (sendCommand zeroBytes pingRequest 10000 readyState)"

definition documentedKey :: buffer where
  \<comment> \<open>The key of the documented test vectors.\<close>
  "documentedKey = [0xA7, 0xE5, 0x8B, 0x22, 0xF0, 0xBE, 0x06, 0xAC,
                    0x24, 0x24, 0x39, 0xCB, 0x94, 0x41, 0x83, 0x8E]"

definition firstBlockOfResponse :: buffer where
  \<comment> \<open>The first cipher block of a 27-byte db-list response (\<open>dataLen = 16\<close>) encrypted
      under \<open>documentedKey\<close>: what one socket read delivers when the response is split.\<close>
  "firstBlockOfResponse = [0x4C, 0x54, 0x96, 0xA5, 0x46, 0x33, 0x7B, 0xC7,
                           0x7D, 0xC3, 0x79, 0xCF, 0x6C, 0x33, 0x8B, 0x6F]"

definition lateBytes :: buffer where
  "lateBytes = [0x21, 0xA4, 0xB4, 0x1A]"

definition exampleHub :: hub where
  "exampleHub n request =
     (if n = 0
      then Inr [0xFE, 0x01, 0x04, 0x00, 0x00, 0x04, 0x00, 0x02, 0x10, 0x01, 0x10, 0x02,
                0x01, 0x00, 0xFF]
      else if n = 1 then Inl CommandTimeout
      else Inr [0xFE, 0x01, 0x04, 0x03, 0x00, 0x06, 0x00, 0x02, 0x10, 0x02, 0x28, 0xCF,
                0xB4, 0x87, 0xC5, 0x00, 0xFF])"

definition deadHub :: hub where
  "deadHub n request = Inl NotConnected"

section \<open>Properties of the packet codec\<close>

lemma readUInt16BE_be16: "off + 2 \<le> length b \<Longrightarrow> readUInt16BE b off = Inr (be16 b off)"
  by (simp add: readUInt16BE_def be16_def)

lemma bindE_Inr: "bindE (Inr x) f = f x"
  by (simp add: bindE_def)

lemma parsePacket_cascade: "parsePacket b = decodeFrame_spec b"
proof (cases "length b < 11")
  case True
  then show ?thesis by (simp add: parsePacket_def decodeFrame_spec_def)
next
  case long: False
  then have hdr: "readUInt16BE b 0 = Inr (be16 b 0)" "readUInt16BE b 2 = Inr (be16 b 2)"
    "readUInt16BE b 4 = Inr (be16 b 4)" "readUInt16BE b 6 = Inr (be16 b 6)"
    by (simp_all add: readUInt16BE_be16)
  show ?thesis
  proof (cases "be16 b 0 \<noteq> 0xFE00 \<and> be16 b 0 \<noteq> 0xFE01")
    case True
    with long show ?thesis
      by (simp add: parsePacket_def decodeFrame_spec_def hdr bindE_Inr
          START_MARK_REQUEST_def START_MARK_RESPONSE_def)
  next
    case mark: False
    show ?thesis
    proof (cases "length b < 11 + be16 b 4")
      case True
      with long mark show ?thesis
        by (simp add: parsePacket_def decodeFrame_spec_def hdr bindE_Inr
            START_MARK_REQUEST_def START_MARK_RESPONSE_def)
    next
      case whole: False
      then have tl: "readUInt8 b (8 + be16 b 4) = Inr (unat (b ! (8 + be16 b 4)))"
        "readUInt16BE b (8 + be16 b 4 + 1) = Inr (be16 b (9 + be16 b 4))"
        by (simp_all add: readUInt8_def readUInt16BE_def be16_def add.commute)
      have sub: "subarray b 2 (8 + be16 b 4) = take (6 + be16 b 4) (drop 2 b)"
        "subarray b 8 (8 + be16 b 4) = take (be16 b 4) (drop 8 b)"
        by (simp_all add: subarray_def)
      from long mark whole show ?thesis
        unfolding parsePacket_def decodeFrame_spec_def hdr bindE_Inr tl sub
          START_MARK_REQUEST_def START_MARK_RESPONSE_def END_MARK_def
        by (auto simp: eq_commute [of "computeChecksum xs" for xs])
    qed
  qed
qed

lemma u16_hi: "v < 65536 \<Longrightarrow> unat (of_nat (v div 256) :: byte) = v div 256"
  by (simp add: unat_of_nat less_mult_imp_div_less) 

lemma u16_lo: "unat (of_nat (v mod 256) :: byte) = v mod 256"
  by (simp add: unat_of_nat)

lemma computeChecksum_word: "computeChecksum xs = unat (fold (\<lambda>b acc. acc XOR b) xs 0)"
proof -
  have "fold (\<lambda>b fcs. fcs XOR unat b) xs (unat a) = unat (fold (\<lambda>b acc. acc XOR b) xs a)" for a :: byte
    by (induction xs arbitrary: a) (simp_all flip: unsigned_xor_eq)
  from this [of 0] show ?thesis by (simp add: computeChecksum_def)
qed

lemma computeChecksum_byte: "computeChecksum xs < 256"
proof -
  have "unat (fold (\<lambda>b acc. acc XOR b) xs (0::byte)) < 2 ^ LENGTH(8)"
    by (rule unsigned_less)
  then show ?thesis by (simp add: computeChecksum_word)
qed

lemma computeChecksum_le: "\<not> 255 < computeChecksum xs"
  using computeChecksum_byte [of xs] by simp

text \<open>
  The checksum is the XOR of the bytes: 0 on the empty buffer, and
  \<open>0x12 XOR 0x34 XOR 0x56 = 0x70\<close>.
\<close>

theorem computeChecksum_examples:
  "computeChecksum [] = 0 \<and> computeChecksum [0x12, 0x34, 0x56] = 0x70"
  by (simp add: computeChecksum_word)

lemma createPacket_wire:
  assumes "c < 65536" "length d < 65536" "l < 65536"
  shows "createPacket c d l r = Inr (wire c d l r)"
  using assms 
  by (simp add: createPacket_def Let_def bindE_def writeUInt16BE_def writeUInt8_def alloc_def
      overwrite_def copy_def u16be_def wire_def computeChecksum_le
      START_MARK_REQUEST_def START_MARK_RESPONSE_def END_MARK_def)

lemma be16_u16be: "v < 65536 \<Longrightarrow> be16 (u16be v @ rest) 0 = v"
  by (simp add: be16_def u16be_def u16_hi u16_lo)

lemma be16_skip: "be16 (x # y # rest) (Suc (Suc off)) = be16 rest off"
  by (simp add: be16_def)

lemma be16_append: "be16 (xs @ rest) (length xs + off) = be16 rest off"
  by (simp add: be16_def nth_append)

lemma wire_layout:
  "wire c d l r = u16be (if r then 0xFE00 else 0xFE01) @ u16be c @ u16be (length d) @ u16be l
     @ d @ [of_nat (computeChecksum (u16be c @ u16be (length d) @ u16be l @ d)), 0x00, 0xFF]"
  by (simp add: wire_def)

lemma parsePacket_wire:
  assumes "c < 65536" "length d < 65536" "l < 65536"
  shows "parsePacket (wire c d l r)
    = Inr \<lparr>cmdId = c, dataLen = length d, listLen = l, data = d, isRequest = r\<rparr>"
proof -
  let ?w = "wire c d l r"
  let ?body = "u16be c @ u16be (length d) @ u16be l @ d"
  let ?fcs = "of_nat (computeChecksum ?body) :: byte"
  have len: "length ?w = 11 + length d" by (simp add: wire_def u16be_def)
  have b0: "be16 ?w 0 = (if r then 0xFE00 else 0xFE01)"
    unfolding wire_layout by (rule be16_u16be) simp
  have b2: "be16 ?w 2 = c"
    using assms(1) by (simp add: wire_def u16be_def be16_def u16_hi u16_lo)
  have b4: "be16 ?w 4 = length d"
    using assms(2) by (simp add: wire_def u16be_def be16_def u16_hi u16_lo)
  have b6: "be16 ?w 6 = l"
    using assms(3) by (simp add: wire_def u16be_def be16_def u16_hi u16_lo)
  define pre where
    "pre = u16be (if r then 0xFE00 else 0xFE01) @ u16be c @ u16be (length d) @ u16be l @ d"
  have w8: "?w = pre @ [?fcs, 0x00, 0xFF]"
    by (simp add: wire_def pre_def)
  have l8: "length pre = 8 + length d"
    by (simp add: u16be_def pre_def)
  have fcs: "?w ! (8 + length d) = ?fcs"
    by (simp add: w8 nth_append l8)
  have e: "be16 ?w (9 + length d) = 0x00FF"
    by (simp add: w8 nth_append l8 be16_def)
  have d2: "drop 2 ?w = ?body @ [?fcs, 0x00, 0xFF]"
    by (simp add: wire_def u16be_def)
  have "length ?body = 6 + length d"
    by (simp add: u16be_def)
  then have bd: "take (6 + length d) (drop 2 ?w) = ?body"
    unfolding d2 by (metis append_eq_conv_conj)
  have d8: "drop 8 ?w = d @ [?fcs, 0x00, 0xFF]"
    by (simp add: wire_def u16be_def)
  have dt: "take (length d) (drop 8 ?w) = d"
    unfolding d8 by simp
  have ck: "unat ?fcs = computeChecksum ?body"
    using computeChecksum_byte [of ?body] by (simp add: unat_of_nat)
  show ?thesis
    unfolding parsePacket_cascade decodeFrame_spec_def b4 len b0 b2 b6 e bd dt fcs ck
    by simp
qed

lemma decodeFrame_spec_take:
  assumes "11 \<le> length b" "11 + be16 b 4 \<le> length b"
  shows "decodeFrame_spec (take (11 + be16 b 4) b) = decodeFrame_spec b"
proof -
  let ?n = "be16 b 4"
  let ?t = "take (11 + ?n) b"
  have be: "be16 ?t off = be16 b off" if "off + 2 \<le> 11 + ?n" for off
    using that by (simp add: be16_def)
  have len: "length ?t = 11 + ?n" using assms by simp
  have n: "be16 ?t 4 = ?n" by (rule be) simp
  show ?thesis
    unfolding decodeFrame_spec_def n len
    using assms by (simp add: be take_drop min_def)
qed

text \<open>
  Claim C1 (round-trip law). For every command identifier and list length that fit an
  unsigned 16-bit integer, every payload whose length fits an unsigned 16-bit integer and
  either framing direction, \<open>createPacket\<close> returns a frame, and \<open>parsePacket\<close> of that
  frame succeeds with exactly the encoder's command identifier, the payload length as
  \<open>dataLen\<close>, the list length, the payload bytes and the request flag.
\<close>

theorem createPacket_parsePacket_roundtrip:
  assumes "c \<le> 65535" and "l \<le> 65535" and "length d \<le> 65535"
  shows "\<exists>frame. createPacket c d l r = Inr frame \<and>
           parsePacket frame =
             Inr \<lparr>cmdId = c, dataLen = length d, listLen = l, data = d, isRequest = r\<rparr>"
  using assms createPacket_wire [of c d l r] parsePacket_wire [of c d l r] by simp

theorem createPacket_parsePacket_roundtrip_witness:
  "(0x0101::nat) \<le> 65535 \<and> (0::nat) \<le> 65535 \<and> length [0x2A::byte] \<le> 65535 \<and>
   (\<exists>frame. createPacket 0x0101 [0x2A] 0 False = Inr frame \<and>
      parsePacket frame =
        Inr \<lparr>cmdId = 0x0101, dataLen = length [0x2A::byte], listLen = 0, data = [0x2A],
              isRequest = False\<rparr>)"
  using createPacket_parsePacket_roundtrip [of "0x0101" 0 "[0x2A]" False] by simp

text \<open>
  Claim C2 (the five checks and their order). On every byte buffer \<open>parsePacket\<close>
  computes exactly the cascade \<open>decodeFrame_spec\<close>: \<open>TooShort\<close> exactly when the buffer
  has fewer than 11 bytes; otherwise \<open>BadStartMark\<close> exactly when the first big-endian
  word is neither \<open>0xFE00\<close> nor \<open>0xFE01\<close>; otherwise \<open>Incomplete\<close> exactly when the
  buffer is shorter than 11 plus the length field at offset 4; otherwise \<open>BadEndMark\<close>
  exactly when the word at offset \<open>9 + dataLen\<close> is not \<open>0x00FF\<close>; otherwise
  \<open>ChecksumMismatch\<close> exactly when the XOR of bytes \<open>[2, 8 + dataLen)\<close> differs from the
  byte at offset \<open>8 + dataLen\<close>; and a packet only when all five checks pass. No range
  error of a \<open>Buffer\<close> read can occur.
\<close>

theorem parsePacket_checks_in_order: "parsePacket b = decodeFrame_spec b"
  by (rule parsePacket_cascade)

theorem parsePacket_checks_in_order_witness:
  "parsePacket [0xFE, 0x01, 0x01, 0x01, 0x00] = Inl TooShort \<and>
   parsePacket [0x12, 0x34, 0, 0, 0, 0, 0, 0, 0, 0x00, 0xFF] = Inl BadStartMark \<and>
   parsePacket [0xFE, 0x01, 0x01, 0x01, 0x00, 0x01, 0, 0, 0x01, 0x00, 0xFF] = Inl Incomplete \<and>
   parsePacket [0xFE, 0x01, 0x01, 0x01, 0x00, 0x00, 0, 0, 0x77, 0xFF, 0x00] = Inl BadEndMark \<and>
   parsePacket [0xFE, 0x01, 0x01, 0x01, 0x00, 0x00, 0, 0, 0x77, 0x00, 0xFF] = Inl ChecksumMismatch \<and>
   parsePacket [0xFE, 0x01, 0x01, 0x01, 0x00, 0x00, 0, 0, 0x00, 0x00, 0xFF] =
     Inr \<lparr>cmdId = 0x0101, dataLen = 0, listLen = 0, data = [], isRequest = False\<rparr>"
  unfolding parsePacket_checks_in_order
  by (simp add: decodeFrame_spec_def be16_def computeChecksum_def)

text \<open>
  A frame built by \<open>createPacket\<close> followed by any trailing bytes parses to the
  encoder's arguments.
\<close>

lemma parsePacket_createPacket_append:
  assumes "c \<le> 65535" and "l \<le> 65535" and "length d \<le> 65535"
  shows "\<exists>frame. createPacket c d l r = Inr frame \<and> length frame = 11 + length d \<and>
           (\<forall>trailing. parsePacket (frame @ trailing) =
              Inr \<lparr>cmdId = c, dataLen = length d, listLen = l, data = d, isRequest = r\<rparr>)"
proof -
  let ?f = "wire c d l r"
  let ?p = "\<lparr>cmdId = c, dataLen = length d, listLen = l, data = d, isRequest = r\<rparr>"
  from assms have f: "createPacket c d l r = Inr ?f"
    by (intro createPacket_wire) simp_all
  from assms have p: "parsePacket ?f = Inr ?p"
    by (intro parsePacket_wire) simp_all
  have len: "length ?f = 11 + length d"
    by (simp add: wire_def u16be_def)
  have n: "be16 ?f 4 = length d"
    using assms(3) by (simp add: wire_def u16be_def be16_def u16_hi u16_lo)
  have "parsePacket (?f @ t) = Inr ?p" for t
  proof -
    have b: "be16 (?f @ t) 4 = length d"
      using n len by (simp add: be16_def nth_append)
    have "decodeFrame_spec (take (11 + be16 (?f @ t) 4) (?f @ t)) = decodeFrame_spec (?f @ t)"
      by (rule decodeFrame_spec_take) (simp_all add: b len)
    then show ?thesis
      using p by (simp add: b len parsePacket_cascade)
  qed
  with f len show ?thesis by blast
qed

theorem parsePacket_createPacket_append_witness:
  "(0x0106::nat) \<le> 65535 \<and> (1::nat) \<le> 65535 \<and> length ([] :: buffer) \<le> 65535 \<and>
   (\<exists>frame. createPacket 0x0106 [] 1 True = Inr frame \<and> length frame = 11 + length ([] :: buffer) \<and>
      parsePacket (frame @ [5, 5, 5, 5, 5]) =
        Inr \<lparr>cmdId = 0x0106, dataLen = 0, listLen = 1, data = [], isRequest = True\<rparr>)"
proof -
  from parsePacket_createPacket_append [of "0x0106" 1 "[]" True] obtain frame
    where "createPacket 0x0106 [] 1 True = Inr frame" "length frame = 11 + length ([] :: buffer)"
      "\<forall>trailing. parsePacket (frame @ trailing) =
         Inr \<lparr>cmdId = 0x0106, dataLen = length ([] :: buffer), listLen = 1, data = [],
               isRequest = True\<rparr>"
    by auto
  then show ?thesis by auto
qed

text \<open>
  Claim C10 (trailing bytes are ignored), as amended. For every buffer whose first
  \<open>11 + dataLen\<close> bytes, \<open>dataLen\<close> being the big-endian length field at offset 4, are
  exactly one valid frame (known start mark, end mark \<open>0x00FF\<close>, matching checksum),
  \<open>parsePacket\<close> succeeds and returns the packet that those bytes encode: command,
  lengths and request flag from the header, the \<open>dataLen\<close> payload bytes after it. The
  bytes beyond offset \<open>11 + dataLen\<close> do not matter, and the prefix alone parses to the
  same packet: the total length is not enforced on decode.
\<close>

theorem parsePacket_ignores_trailing_bytes:
  assumes "11 + be16 b 4 \<le> length b" and "validFrame_spec (take (11 + be16 b 4) b)"
  shows "parsePacket b =
           Inr \<lparr>cmdId = be16 b 2, dataLen = be16 b 4, listLen = be16 b 6,
                 data = take (be16 b 4) (drop 8 b), isRequest = (be16 b 0 = 0xFE00)\<rparr> \<and>
         parsePacket (take (11 + be16 b 4) b) = parsePacket b"
proof -
  let ?n = "be16 b 4"
  let ?t = "take (11 + ?n) b"
  from assms(1) have long: "11 \<le> length b" by simp
  have be: "be16 ?t off = be16 b off" if "off + 2 \<le> 11 + ?n" for off
    using that by (simp add: be16_def)
  have n: "be16 ?t 4 = ?n" by (rule be) simp
  have m: "be16 ?t 0 = be16 b 0" by (rule be) simp
  have e: "be16 ?t (9 + ?n) = be16 b (9 + ?n)" by (rule be) simp
  have k: "take (6 + ?n) (drop 2 ?t) = take (6 + ?n) (drop 2 b)"
    by (simp add: take_drop min_def)
  have x: "?t ! (8 + ?n) = b ! (8 + ?n)" by simp
  from assms(2) have v: "be16 b 0 = 0xFE00 \<or> be16 b 0 = 0xFE01"
    "be16 b (9 + ?n) = 0x00FF"
    "computeChecksum (take (6 + ?n) (drop 2 b)) = unat (b ! (8 + ?n))"
    unfolding validFrame_spec_def n m e k x by blast+
  from long assms(1) v have "parsePacket b =
      Inr \<lparr>cmdId = be16 b 2, dataLen = ?n, listLen = be16 b 6,
            data = take ?n (drop 8 b), isRequest = (be16 b 0 = 0xFE00)\<rparr>"
    unfolding parsePacket_cascade decodeFrame_spec_def by auto
  moreover from long assms(1) have "parsePacket ?t = parsePacket b"
    unfolding parsePacket_cascade by (rule decodeFrame_spec_take)
  ultimately show ?thesis by simp
qed

theorem parsePacket_ignores_trailing_bytes_witness:
  "11 + be16 [0xFE, 0x00, 0x01, 0x06, 0, 0, 0, 0x01, 0x06, 0x00, 0xFF, 5, 5, 5, 5, 5] 4
     \<le> length [0xFE, 0x00, 0x01, 0x06, 0, 0, 0, 0x01, 0x06, 0x00, 0xFF, 5, 5, 5, 5, 5 :: byte] \<and>
   validFrame_spec [0xFE, 0x00, 0x01, 0x06, 0, 0, 0, 0x01, 0x06, 0x00, 0xFF] \<and>
   parsePacket [0xFE, 0x00, 0x01, 0x06, 0, 0, 0, 0x01, 0x06, 0x00, 0xFF, 5, 5, 5, 5, 5] =
     Inr \<lparr>cmdId = 0x0106, dataLen = 0, listLen = 1, data = [], isRequest = True\<rparr> \<and>
   parsePacket [0xFE, 0x00, 0x01, 0x06, 0, 0, 0, 0x01, 0x06, 0x00, 0xFF] =
     Inr \<lparr>cmdId = 0x0106, dataLen = 0, listLen = 1, data = [], isRequest = True\<rparr>"
proof -
  let ?b = "[0xFE, 0x00, 0x01, 0x06, 0, 0, 0, 0x01, 0x06, 0x00, 0xFF, 5, 5, 5, 5, 5] :: buffer"
  have n: "be16 ?b 4 = 0" by (simp add: be16_def)
  have h1: "11 + be16 ?b 4 \<le> length ?b" by (simp add: n)
  have t: "take (11 + be16 ?b 4) ?b = [0xFE, 0x00, 0x01, 0x06, 0, 0, 0, 0x01, 0x06, 0x00, 0xFF]"
    by (simp add: n)
  have v: "validFrame_spec [0xFE, 0x00, 0x01, 0x06, 0, 0, 0, 0x01, 0x06, 0x00, 0xFF]"
    by (simp add: validFrame_spec_def be16_def computeChecksum_word)
  then have h2: "validFrame_spec (take (11 + be16 ?b 4) ?b)"
    by (simp only: t)
  from parsePacket_ignores_trailing_bytes [OF h1 h2]
  have "parsePacket ?b =
      Inr \<lparr>cmdId = 0x0106, dataLen = 0, listLen = 1, data = [], isRequest = True\<rparr>"
    and "parsePacket (take (11 + be16 ?b 4) ?b) = parsePacket ?b"
    by (simp_all add: be16_def)
  with h1 v show ?thesis
    by (simp only: t)
qed

section \<open>The cipher on the documented vectors\<close>

text \<open>
  The S-boxes and \<open>xtime\<close> as tables of equations, one per byte: with them the
  simplifier evaluates a block in the kernel. The model of the cipher reproduces the
  example of FIPS 197, appendix C.1, in both directions.
\<close>

lemma sub_byte_tab:
  "sub_byte 0x00 = 0x63" "sub_byte 0x01 = 0x7C" "sub_byte 0x02 = 0x77" "sub_byte 0x03 = 0x7B" "sub_byte 0x04 = 0xF2" "sub_byte 0x05 = 0x6B"
  "sub_byte 0x06 = 0x6F" "sub_byte 0x07 = 0xC5" "sub_byte 0x08 = 0x30" "sub_byte 0x09 = 0x01" "sub_byte 0x0A = 0x67" "sub_byte 0x0B = 0x2B"
  "sub_byte 0x0C = 0xFE" "sub_byte 0x0D = 0xD7" "sub_byte 0x0E = 0xAB" "sub_byte 0x0F = 0x76" "sub_byte 0x10 = 0xCA" "sub_byte 0x11 = 0x82"
  "sub_byte 0x12 = 0xC9" "sub_byte 0x13 = 0x7D" "sub_byte 0x14 = 0xFA" "sub_byte 0x15 = 0x59" "sub_byte 0x16 = 0x47" "sub_byte 0x17 = 0xF0"
  "sub_byte 0x18 = 0xAD" "sub_byte 0x19 = 0xD4" "sub_byte 0x1A = 0xA2" "sub_byte 0x1B = 0xAF" "sub_byte 0x1C = 0x9C" "sub_byte 0x1D = 0xA4"
  "sub_byte 0x1E = 0x72" "sub_byte 0x1F = 0xC0" "sub_byte 0x20 = 0xB7" "sub_byte 0x21 = 0xFD" "sub_byte 0x22 = 0x93" "sub_byte 0x23 = 0x26"
  "sub_byte 0x24 = 0x36" "sub_byte 0x25 = 0x3F" "sub_byte 0x26 = 0xF7" "sub_byte 0x27 = 0xCC" "sub_byte 0x28 = 0x34" "sub_byte 0x29 = 0xA5"
  "sub_byte 0x2A = 0xE5" "sub_byte 0x2B = 0xF1" "sub_byte 0x2C = 0x71" "sub_byte 0x2D = 0xD8" "sub_byte 0x2E = 0x31" "sub_byte 0x2F = 0x15"
  "sub_byte 0x30 = 0x04" "sub_byte 0x31 = 0xC7" "sub_byte 0x32 = 0x23" "sub_byte 0x33 = 0xC3" "sub_byte 0x34 = 0x18" "sub_byte 0x35 = 0x96"
  "sub_byte 0x36 = 0x05" "sub_byte 0x37 = 0x9A" "sub_byte 0x38 = 0x07" "sub_byte 0x39 = 0x12" "sub_byte 0x3A = 0x80" "sub_byte 0x3B = 0xE2"
  "sub_byte 0x3C = 0xEB" "sub_byte 0x3D = 0x27" "sub_byte 0x3E = 0xB2" "sub_byte 0x3F = 0x75" "sub_byte 0x40 = 0x09" "sub_byte 0x41 = 0x83"
  "sub_byte 0x42 = 0x2C" "sub_byte 0x43 = 0x1A" "sub_byte 0x44 = 0x1B" "sub_byte 0x45 = 0x6E" "sub_byte 0x46 = 0x5A" "sub_byte 0x47 = 0xA0"
  "sub_byte 0x48 = 0x52" "sub_byte 0x49 = 0x3B" "sub_byte 0x4A = 0xD6" "sub_byte 0x4B = 0xB3" "sub_byte 0x4C = 0x29" "sub_byte 0x4D = 0xE3"
  "sub_byte 0x4E = 0x2F" "sub_byte 0x4F = 0x84" "sub_byte 0x50 = 0x53" "sub_byte 0x51 = 0xD1" "sub_byte 0x52 = 0x00" "sub_byte 0x53 = 0xED"
  "sub_byte 0x54 = 0x20" "sub_byte 0x55 = 0xFC" "sub_byte 0x56 = 0xB1" "sub_byte 0x57 = 0x5B" "sub_byte 0x58 = 0x6A" "sub_byte 0x59 = 0xCB"
  "sub_byte 0x5A = 0xBE" "sub_byte 0x5B = 0x39" "sub_byte 0x5C = 0x4A" "sub_byte 0x5D = 0x4C" "sub_byte 0x5E = 0x58" "sub_byte 0x5F = 0xCF"
  "sub_byte 0x60 = 0xD0" "sub_byte 0x61 = 0xEF" "sub_byte 0x62 = 0xAA" "sub_byte 0x63 = 0xFB" "sub_byte 0x64 = 0x43" "sub_byte 0x65 = 0x4D"
  "sub_byte 0x66 = 0x33" "sub_byte 0x67 = 0x85" "sub_byte 0x68 = 0x45" "sub_byte 0x69 = 0xF9" "sub_byte 0x6A = 0x02" "sub_byte 0x6B = 0x7F"
  "sub_byte 0x6C = 0x50" "sub_byte 0x6D = 0x3C" "sub_byte 0x6E = 0x9F" "sub_byte 0x6F = 0xA8" "sub_byte 0x70 = 0x51" "sub_byte 0x71 = 0xA3"
  "sub_byte 0x72 = 0x40" "sub_byte 0x73 = 0x8F" "sub_byte 0x74 = 0x92" "sub_byte 0x75 = 0x9D" "sub_byte 0x76 = 0x38" "sub_byte 0x77 = 0xF5"
  "sub_byte 0x78 = 0xBC" "sub_byte 0x79 = 0xB6" "sub_byte 0x7A = 0xDA" "sub_byte 0x7B = 0x21" "sub_byte 0x7C = 0x10" "sub_byte 0x7D = 0xFF"
  "sub_byte 0x7E = 0xF3" "sub_byte 0x7F = 0xD2" "sub_byte 0x80 = 0xCD" "sub_byte 0x81 = 0x0C" "sub_byte 0x82 = 0x13" "sub_byte 0x83 = 0xEC"
  "sub_byte 0x84 = 0x5F" "sub_byte 0x85 = 0x97" "sub_byte 0x86 = 0x44" "sub_byte 0x87 = 0x17" "sub_byte 0x88 = 0xC4" "sub_byte 0x89 = 0xA7"
  "sub_byte 0x8A = 0x7E" "sub_byte 0x8B = 0x3D" "sub_byte 0x8C = 0x64" "sub_byte 0x8D = 0x5D" "sub_byte 0x8E = 0x19" "sub_byte 0x8F = 0x73"
  "sub_byte 0x90 = 0x60" "sub_byte 0x91 = 0x81" "sub_byte 0x92 = 0x4F" "sub_byte 0x93 = 0xDC" "sub_byte 0x94 = 0x22" "sub_byte 0x95 = 0x2A"
  "sub_byte 0x96 = 0x90" "sub_byte 0x97 = 0x88" "sub_byte 0x98 = 0x46" "sub_byte 0x99 = 0xEE" "sub_byte 0x9A = 0xB8" "sub_byte 0x9B = 0x14"
  "sub_byte 0x9C = 0xDE" "sub_byte 0x9D = 0x5E" "sub_byte 0x9E = 0x0B" "sub_byte 0x9F = 0xDB" "sub_byte 0xA0 = 0xE0" "sub_byte 0xA1 = 0x32"
  "sub_byte 0xA2 = 0x3A" "sub_byte 0xA3 = 0x0A" "sub_byte 0xA4 = 0x49" "sub_byte 0xA5 = 0x06" "sub_byte 0xA6 = 0x24" "sub_byte 0xA7 = 0x5C"
  "sub_byte 0xA8 = 0xC2" "sub_byte 0xA9 = 0xD3" "sub_byte 0xAA = 0xAC" "sub_byte 0xAB = 0x62" "sub_byte 0xAC = 0x91" "sub_byte 0xAD = 0x95"
  "sub_byte 0xAE = 0xE4" "sub_byte 0xAF = 0x79" "sub_byte 0xB0 = 0xE7" "sub_byte 0xB1 = 0xC8" "sub_byte 0xB2 = 0x37" "sub_byte 0xB3 = 0x6D"
  "sub_byte 0xB4 = 0x8D" "sub_byte 0xB5 = 0xD5" "sub_byte 0xB6 = 0x4E" "sub_byte 0xB7 = 0xA9" "sub_byte 0xB8 = 0x6C" "sub_byte 0xB9 = 0x56"
  "sub_byte 0xBA = 0xF4" "sub_byte 0xBB = 0xEA" "sub_byte 0xBC = 0x65" "sub_byte 0xBD = 0x7A" "sub_byte 0xBE = 0xAE" "sub_byte 0xBF = 0x08"
  "sub_byte 0xC0 = 0xBA" "sub_byte 0xC1 = 0x78" "sub_byte 0xC2 = 0x25" "sub_byte 0xC3 = 0x2E" "sub_byte 0xC4 = 0x1C" "sub_byte 0xC5 = 0xA6"
  "sub_byte 0xC6 = 0xB4" "sub_byte 0xC7 = 0xC6" "sub_byte 0xC8 = 0xE8" "sub_byte 0xC9 = 0xDD" "sub_byte 0xCA = 0x74" "sub_byte 0xCB = 0x1F"
  "sub_byte 0xCC = 0x4B" "sub_byte 0xCD = 0xBD" "sub_byte 0xCE = 0x8B" "sub_byte 0xCF = 0x8A" "sub_byte 0xD0 = 0x70" "sub_byte 0xD1 = 0x3E"
  "sub_byte 0xD2 = 0xB5" "sub_byte 0xD3 = 0x66" "sub_byte 0xD4 = 0x48" "sub_byte 0xD5 = 0x03" "sub_byte 0xD6 = 0xF6" "sub_byte 0xD7 = 0x0E"
  "sub_byte 0xD8 = 0x61" "sub_byte 0xD9 = 0x35" "sub_byte 0xDA = 0x57" "sub_byte 0xDB = 0xB9" "sub_byte 0xDC = 0x86" "sub_byte 0xDD = 0xC1"
  "sub_byte 0xDE = 0x1D" "sub_byte 0xDF = 0x9E" "sub_byte 0xE0 = 0xE1" "sub_byte 0xE1 = 0xF8" "sub_byte 0xE2 = 0x98" "sub_byte 0xE3 = 0x11"
  "sub_byte 0xE4 = 0x69" "sub_byte 0xE5 = 0xD9" "sub_byte 0xE6 = 0x8E" "sub_byte 0xE7 = 0x94" "sub_byte 0xE8 = 0x9B" "sub_byte 0xE9 = 0x1E"
  "sub_byte 0xEA = 0x87" "sub_byte 0xEB = 0xE9" "sub_byte 0xEC = 0xCE" "sub_byte 0xED = 0x55" "sub_byte 0xEE = 0x28" "sub_byte 0xEF = 0xDF"
  "sub_byte 0xF0 = 0x8C" "sub_byte 0xF1 = 0xA1" "sub_byte 0xF2 = 0x89" "sub_byte 0xF3 = 0x0D" "sub_byte 0xF4 = 0xBF" "sub_byte 0xF5 = 0xE6"
  "sub_byte 0xF6 = 0x42" "sub_byte 0xF7 = 0x68" "sub_byte 0xF8 = 0x41" "sub_byte 0xF9 = 0x99" "sub_byte 0xFA = 0x2D" "sub_byte 0xFB = 0x0F"
  "sub_byte 0xFC = 0xB0" "sub_byte 0xFD = 0x54" "sub_byte 0xFE = 0xBB" "sub_byte 0xFF = 0x16"
  by (simp_all add: sub_byte_def SBOX_def)

lemma inv_sub_byte_tab:
  "inv_sub_byte 0x00 = 0x52" "inv_sub_byte 0x01 = 0x09" "inv_sub_byte 0x02 = 0x6A" "inv_sub_byte 0x03 = 0xD5" "inv_sub_byte 0x04 = 0x30" "inv_sub_byte 0x05 = 0x36"
  "inv_sub_byte 0x06 = 0xA5" "inv_sub_byte 0x07 = 0x38" "inv_sub_byte 0x08 = 0xBF" "inv_sub_byte 0x09 = 0x40" "inv_sub_byte 0x0A = 0xA3" "inv_sub_byte 0x0B = 0x9E"
  "inv_sub_byte 0x0C = 0x81" "inv_sub_byte 0x0D = 0xF3" "inv_sub_byte 0x0E = 0xD7" "inv_sub_byte 0x0F = 0xFB" "inv_sub_byte 0x10 = 0x7C" "inv_sub_byte 0x11 = 0xE3"
  "inv_sub_byte 0x12 = 0x39" "inv_sub_byte 0x13 = 0x82" "inv_sub_byte 0x14 = 0x9B" "inv_sub_byte 0x15 = 0x2F" "inv_sub_byte 0x16 = 0xFF" "inv_sub_byte 0x17 = 0x87"
  "inv_sub_byte 0x18 = 0x34" "inv_sub_byte 0x19 = 0x8E" "inv_sub_byte 0x1A = 0x43" "inv_sub_byte 0x1B = 0x44" "inv_sub_byte 0x1C = 0xC4" "inv_sub_byte 0x1D = 0xDE"
  "inv_sub_byte 0x1E = 0xE9" "inv_sub_byte 0x1F = 0xCB" "inv_sub_byte 0x20 = 0x54" "inv_sub_byte 0x21 = 0x7B" "inv_sub_byte 0x22 = 0x94" "inv_sub_byte 0x23 = 0x32"
  "inv_sub_byte 0x24 = 0xA6" "inv_sub_byte 0x25 = 0xC2" "inv_sub_byte 0x26 = 0x23" "inv_sub_byte 0x27 = 0x3D" "inv_sub_byte 0x28 = 0xEE" "inv_sub_byte 0x29 = 0x4C"
  "inv_sub_byte 0x2A = 0x95" "inv_sub_byte 0x2B = 0x0B" "inv_sub_byte 0x2C = 0x42" "inv_sub_byte 0x2D = 0xFA" "inv_sub_byte 0x2E = 0xC3" "inv_sub_byte 0x2F = 0x4E"
  "inv_sub_byte 0x30 = 0x08" "inv_sub_byte 0x31 = 0x2E" "inv_sub_byte 0x32 = 0xA1" "inv_sub_byte 0x33 = 0x66" "inv_sub_byte 0x34 = 0x28" "inv_sub_byte 0x35 = 0xD9"
  "inv_sub_byte 0x36 = 0x24" "inv_sub_byte 0x37 = 0xB2" "inv_sub_byte 0x38 = 0x76" "inv_sub_byte 0x39 = 0x5B" "inv_sub_byte 0x3A = 0xA2" "inv_sub_byte 0x3B = 0x49"
  "inv_sub_byte 0x3C = 0x6D" "inv_sub_byte 0x3D = 0x8B" "inv_sub_byte 0x3E = 0xD1" "inv_sub_byte 0x3F = 0x25" "inv_sub_byte 0x40 = 0x72" "inv_sub_byte 0x41 = 0xF8"
  "inv_sub_byte 0x42 = 0xF6" "inv_sub_byte 0x43 = 0x64" "inv_sub_byte 0x44 = 0x86" "inv_sub_byte 0x45 = 0x68" "inv_sub_byte 0x46 = 0x98" "inv_sub_byte 0x47 = 0x16"
  "inv_sub_byte 0x48 = 0xD4" "inv_sub_byte 0x49 = 0xA4" "inv_sub_byte 0x4A = 0x5C" "inv_sub_byte 0x4B = 0xCC" "inv_sub_byte 0x4C = 0x5D" "inv_sub_byte 0x4D = 0x65"
  "inv_sub_byte 0x4E = 0xB6" "inv_sub_byte 0x4F = 0x92" "inv_sub_byte 0x50 = 0x6C" "inv_sub_byte 0x51 = 0x70" "inv_sub_byte 0x52 = 0x48" "inv_sub_byte 0x53 = 0x50"
  "inv_sub_byte 0x54 = 0xFD" "inv_sub_byte 0x55 = 0xED" "inv_sub_byte 0x56 = 0xB9" "inv_sub_byte 0x57 = 0xDA" "inv_sub_byte 0x58 = 0x5E" "inv_sub_byte 0x59 = 0x15"
  "inv_sub_byte 0x5A = 0x46" "inv_sub_byte 0x5B = 0x57" "inv_sub_byte 0x5C = 0xA7" "inv_sub_byte 0x5D = 0x8D" "inv_sub_byte 0x5E = 0x9D" "inv_sub_byte 0x5F = 0x84"
  "inv_sub_byte 0x60 = 0x90" "inv_sub_byte 0x61 = 0xD8" "inv_sub_byte 0x62 = 0xAB" "inv_sub_byte 0x63 = 0x00" "inv_sub_byte 0x64 = 0x8C" "inv_sub_byte 0x65 = 0xBC"
  "inv_sub_byte 0x66 = 0xD3" "inv_sub_byte 0x67 = 0x0A" "inv_sub_byte 0x68 = 0xF7" "inv_sub_byte 0x69 = 0xE4" "inv_sub_byte 0x6A = 0x58" "inv_sub_byte 0x6B = 0x05"
  "inv_sub_byte 0x6C = 0xB8" "inv_sub_byte 0x6D = 0xB3" "inv_sub_byte 0x6E = 0x45" "inv_sub_byte 0x6F = 0x06" "inv_sub_byte 0x70 = 0xD0" "inv_sub_byte 0x71 = 0x2C"
  "inv_sub_byte 0x72 = 0x1E" "inv_sub_byte 0x73 = 0x8F" "inv_sub_byte 0x74 = 0xCA" "inv_sub_byte 0x75 = 0x3F" "inv_sub_byte 0x76 = 0x0F" "inv_sub_byte 0x77 = 0x02"
  "inv_sub_byte 0x78 = 0xC1" "inv_sub_byte 0x79 = 0xAF" "inv_sub_byte 0x7A = 0xBD" "inv_sub_byte 0x7B = 0x03" "inv_sub_byte 0x7C = 0x01" "inv_sub_byte 0x7D = 0x13"
  "inv_sub_byte 0x7E = 0x8A" "inv_sub_byte 0x7F = 0x6B" "inv_sub_byte 0x80 = 0x3A" "inv_sub_byte 0x81 = 0x91" "inv_sub_byte 0x82 = 0x11" "inv_sub_byte 0x83 = 0x41"
  "inv_sub_byte 0x84 = 0x4F" "inv_sub_byte 0x85 = 0x67" "inv_sub_byte 0x86 = 0xDC" "inv_sub_byte 0x87 = 0xEA" "inv_sub_byte 0x88 = 0x97" "inv_sub_byte 0x89 = 0xF2"
  "inv_sub_byte 0x8A = 0xCF" "inv_sub_byte 0x8B = 0xCE" "inv_sub_byte 0x8C = 0xF0" "inv_sub_byte 0x8D = 0xB4" "inv_sub_byte 0x8E = 0xE6" "inv_sub_byte 0x8F = 0x73"
  "inv_sub_byte 0x90 = 0x96" "inv_sub_byte 0x91 = 0xAC" "inv_sub_byte 0x92 = 0x74" "inv_sub_byte 0x93 = 0x22" "inv_sub_byte 0x94 = 0xE7" "inv_sub_byte 0x95 = 0xAD"
  "inv_sub_byte 0x96 = 0x35" "inv_sub_byte 0x97 = 0x85" "inv_sub_byte 0x98 = 0xE2" "inv_sub_byte 0x99 = 0xF9" "inv_sub_byte 0x9A = 0x37" "inv_sub_byte 0x9B = 0xE8"
  "inv_sub_byte 0x9C = 0x1C" "inv_sub_byte 0x9D = 0x75" "inv_sub_byte 0x9E = 0xDF" "inv_sub_byte 0x9F = 0x6E" "inv_sub_byte 0xA0 = 0x47" "inv_sub_byte 0xA1 = 0xF1"
  "inv_sub_byte 0xA2 = 0x1A" "inv_sub_byte 0xA3 = 0x71" "inv_sub_byte 0xA4 = 0x1D" "inv_sub_byte 0xA5 = 0x29" "inv_sub_byte 0xA6 = 0xC5" "inv_sub_byte 0xA7 = 0x89"
  "inv_sub_byte 0xA8 = 0x6F" "inv_sub_byte 0xA9 = 0xB7" "inv_sub_byte 0xAA = 0x62" "inv_sub_byte 0xAB = 0x0E" "inv_sub_byte 0xAC = 0xAA" "inv_sub_byte 0xAD = 0x18"
  "inv_sub_byte 0xAE = 0xBE" "inv_sub_byte 0xAF = 0x1B" "inv_sub_byte 0xB0 = 0xFC" "inv_sub_byte 0xB1 = 0x56" "inv_sub_byte 0xB2 = 0x3E" "inv_sub_byte 0xB3 = 0x4B"
  "inv_sub_byte 0xB4 = 0xC6" "inv_sub_byte 0xB5 = 0xD2" "inv_sub_byte 0xB6 = 0x79" "inv_sub_byte 0xB7 = 0x20" "inv_sub_byte 0xB8 = 0x9A" "inv_sub_byte 0xB9 = 0xDB"
  "inv_sub_byte 0xBA = 0xC0" "inv_sub_byte 0xBB = 0xFE" "inv_sub_byte 0xBC = 0x78" "inv_sub_byte 0xBD = 0xCD" "inv_sub_byte 0xBE = 0x5A" "inv_sub_byte 0xBF = 0xF4"
  "inv_sub_byte 0xC0 = 0x1F" "inv_sub_byte 0xC1 = 0xDD" "inv_sub_byte 0xC2 = 0xA8" "inv_sub_byte 0xC3 = 0x33" "inv_sub_byte 0xC4 = 0x88" "inv_sub_byte 0xC5 = 0x07"
  "inv_sub_byte 0xC6 = 0xC7" "inv_sub_byte 0xC7 = 0x31" "inv_sub_byte 0xC8 = 0xB1" "inv_sub_byte 0xC9 = 0x12" "inv_sub_byte 0xCA = 0x10" "inv_sub_byte 0xCB = 0x59"
  "inv_sub_byte 0xCC = 0x27" "inv_sub_byte 0xCD = 0x80" "inv_sub_byte 0xCE = 0xEC" "inv_sub_byte 0xCF = 0x5F" "inv_sub_byte 0xD0 = 0x60" "inv_sub_byte 0xD1 = 0x51"
  "inv_sub_byte 0xD2 = 0x7F" "inv_sub_byte 0xD3 = 0xA9" "inv_sub_byte 0xD4 = 0x19" "inv_sub_byte 0xD5 = 0xB5" "inv_sub_byte 0xD6 = 0x4A" "inv_sub_byte 0xD7 = 0x0D"
  "inv_sub_byte 0xD8 = 0x2D" "inv_sub_byte 0xD9 = 0xE5" "inv_sub_byte 0xDA = 0x7A" "inv_sub_byte 0xDB = 0x9F" "inv_sub_byte 0xDC = 0x93" "inv_sub_byte 0xDD = 0xC9"
  "inv_sub_byte 0xDE = 0x9C" "inv_sub_byte 0xDF = 0xEF" "inv_sub_byte 0xE0 = 0xA0" "inv_sub_byte 0xE1 = 0xE0" "inv_sub_byte 0xE2 = 0x3B" "inv_sub_byte 0xE3 = 0x4D"
  "inv_sub_byte 0xE4 = 0xAE" "inv_sub_byte 0xE5 = 0x2A" "inv_sub_byte 0xE6 = 0xF5" "inv_sub_byte 0xE7 = 0xB0" "inv_sub_byte 0xE8 = 0xC8" "inv_sub_byte 0xE9 = 0xEB"
  "inv_sub_byte 0xEA = 0xBB" "inv_sub_byte 0xEB = 0x3C" "inv_sub_byte 0xEC = 0x83" "inv_sub_byte 0xED = 0x53" "inv_sub_byte 0xEE = 0x99" "inv_sub_byte 0xEF = 0x61"
  "inv_sub_byte 0xF0 = 0x17" "inv_sub_byte 0xF1 = 0x2B" "inv_sub_byte 0xF2 = 0x04" "inv_sub_byte 0xF3 = 0x7E" "inv_sub_byte 0xF4 = 0xBA" "inv_sub_byte 0xF5 = 0x77"
  "inv_sub_byte 0xF6 = 0xD6" "inv_sub_byte 0xF7 = 0x26" "inv_sub_byte 0xF8 = 0xE1" "inv_sub_byte 0xF9 = 0x69" "inv_sub_byte 0xFA = 0x14" "inv_sub_byte 0xFB = 0x63"
  "inv_sub_byte 0xFC = 0x55" "inv_sub_byte 0xFD = 0x21" "inv_sub_byte 0xFE = 0x0C" "inv_sub_byte 0xFF = 0x7D"
  by (simp_all add: inv_sub_byte_def INV_SBOX_def)

lemma xtime_tab:
  "xtime 0x00 = 0x00" "xtime 0x01 = 0x02" "xtime 0x02 = 0x04" "xtime 0x03 = 0x06" "xtime 0x04 = 0x08" "xtime 0x05 = 0x0A"
  "xtime 0x06 = 0x0C" "xtime 0x07 = 0x0E" "xtime 0x08 = 0x10" "xtime 0x09 = 0x12" "xtime 0x0A = 0x14" "xtime 0x0B = 0x16"
  "xtime 0x0C = 0x18" "xtime 0x0D = 0x1A" "xtime 0x0E = 0x1C" "xtime 0x0F = 0x1E" "xtime 0x10 = 0x20" "xtime 0x11 = 0x22"
  "xtime 0x12 = 0x24" "xtime 0x13 = 0x26" "xtime 0x14 = 0x28" "xtime 0x15 = 0x2A" "xtime 0x16 = 0x2C" "xtime 0x17 = 0x2E"
  "xtime 0x18 = 0x30" "xtime 0x19 = 0x32" "xtime 0x1A = 0x34" "xtime 0x1B = 0x36" "xtime 0x1C = 0x38" "xtime 0x1D = 0x3A"
  "xtime 0x1E = 0x3C" "xtime 0x1F = 0x3E" "xtime 0x20 = 0x40" "xtime 0x21 = 0x42" "xtime 0x22 = 0x44" "xtime 0x23 = 0x46"
  "xtime 0x24 = 0x48" "xtime 0x25 = 0x4A" "xtime 0x26 = 0x4C" "xtime 0x27 = 0x4E" "xtime 0x28 = 0x50" "xtime 0x29 = 0x52"
  "xtime 0x2A = 0x54" "xtime 0x2B = 0x56" "xtime 0x2C = 0x58" "xtime 0x2D = 0x5A" "xtime 0x2E = 0x5C" "xtime 0x2F = 0x5E"
  "xtime 0x30 = 0x60" "xtime 0x31 = 0x62" "xtime 0x32 = 0x64" "xtime 0x33 = 0x66" "xtime 0x34 = 0x68" "xtime 0x35 = 0x6A"
  "xtime 0x36 = 0x6C" "xtime 0x37 = 0x6E" "xtime 0x38 = 0x70" "xtime 0x39 = 0x72" "xtime 0x3A = 0x74" "xtime 0x3B = 0x76"
  "xtime 0x3C = 0x78" "xtime 0x3D = 0x7A" "xtime 0x3E = 0x7C" "xtime 0x3F = 0x7E" "xtime 0x40 = 0x80" "xtime 0x41 = 0x82"
  "xtime 0x42 = 0x84" "xtime 0x43 = 0x86" "xtime 0x44 = 0x88" "xtime 0x45 = 0x8A" "xtime 0x46 = 0x8C" "xtime 0x47 = 0x8E"
  "xtime 0x48 = 0x90" "xtime 0x49 = 0x92" "xtime 0x4A = 0x94" "xtime 0x4B = 0x96" "xtime 0x4C = 0x98" "xtime 0x4D = 0x9A"
  "xtime 0x4E = 0x9C" "xtime 0x4F = 0x9E" "xtime 0x50 = 0xA0" "xtime 0x51 = 0xA2" "xtime 0x52 = 0xA4" "xtime 0x53 = 0xA6"
  "xtime 0x54 = 0xA8" "xtime 0x55 = 0xAA" "xtime 0x56 = 0xAC" "xtime 0x57 = 0xAE" "xtime 0x58 = 0xB0" "xtime 0x59 = 0xB2"
  "xtime 0x5A = 0xB4" "xtime 0x5B = 0xB6" "xtime 0x5C = 0xB8" "xtime 0x5D = 0xBA" "xtime 0x5E = 0xBC" "xtime 0x5F = 0xBE"
  "xtime 0x60 = 0xC0" "xtime 0x61 = 0xC2" "xtime 0x62 = 0xC4" "xtime 0x63 = 0xC6" "xtime 0x64 = 0xC8" "xtime 0x65 = 0xCA"
  "xtime 0x66 = 0xCC" "xtime 0x67 = 0xCE" "xtime 0x68 = 0xD0" "xtime 0x69 = 0xD2" "xtime 0x6A = 0xD4" "xtime 0x6B = 0xD6"
  "xtime 0x6C = 0xD8" "xtime 0x6D = 0xDA" "xtime 0x6E = 0xDC" "xtime 0x6F = 0xDE" "xtime 0x70 = 0xE0" "xtime 0x71 = 0xE2"
  "xtime 0x72 = 0xE4" "xtime 0x73 = 0xE6" "xtime 0x74 = 0xE8" "xtime 0x75 = 0xEA" "xtime 0x76 = 0xEC" "xtime 0x77 = 0xEE"
  "xtime 0x78 = 0xF0" "xtime 0x79 = 0xF2" "xtime 0x7A = 0xF4" "xtime 0x7B = 0xF6" "xtime 0x7C = 0xF8" "xtime 0x7D = 0xFA"
  "xtime 0x7E = 0xFC" "xtime 0x7F = 0xFE" "xtime 0x80 = 0x1B" "xtime 0x81 = 0x19" "xtime 0x82 = 0x1F" "xtime 0x83 = 0x1D"
  "xtime 0x84 = 0x13" "xtime 0x85 = 0x11" "xtime 0x86 = 0x17" "xtime 0x87 = 0x15" "xtime 0x88 = 0x0B" "xtime 0x89 = 0x09"
  "xtime 0x8A = 0x0F" "xtime 0x8B = 0x0D" "xtime 0x8C = 0x03" "xtime 0x8D = 0x01" "xtime 0x8E = 0x07" "xtime 0x8F = 0x05"
  "xtime 0x90 = 0x3B" "xtime 0x91 = 0x39" "xtime 0x92 = 0x3F" "xtime 0x93 = 0x3D" "xtime 0x94 = 0x33" "xtime 0x95 = 0x31"
  "xtime 0x96 = 0x37" "xtime 0x97 = 0x35" "xtime 0x98 = 0x2B" "xtime 0x99 = 0x29" "xtime 0x9A = 0x2F" "xtime 0x9B = 0x2D"
  "xtime 0x9C = 0x23" "xtime 0x9D = 0x21" "xtime 0x9E = 0x27" "xtime 0x9F = 0x25" "xtime 0xA0 = 0x5B" "xtime 0xA1 = 0x59"
  "xtime 0xA2 = 0x5F" "xtime 0xA3 = 0x5D" "xtime 0xA4 = 0x53" "xtime 0xA5 = 0x51" "xtime 0xA6 = 0x57" "xtime 0xA7 = 0x55"
  "xtime 0xA8 = 0x4B" "xtime 0xA9 = 0x49" "xtime 0xAA = 0x4F" "xtime 0xAB = 0x4D" "xtime 0xAC = 0x43" "xtime 0xAD = 0x41"
  "xtime 0xAE = 0x47" "xtime 0xAF = 0x45" "xtime 0xB0 = 0x7B" "xtime 0xB1 = 0x79" "xtime 0xB2 = 0x7F" "xtime 0xB3 = 0x7D"
  "xtime 0xB4 = 0x73" "xtime 0xB5 = 0x71" "xtime 0xB6 = 0x77" "xtime 0xB7 = 0x75" "xtime 0xB8 = 0x6B" "xtime 0xB9 = 0x69"
  "xtime 0xBA = 0x6F" "xtime 0xBB = 0x6D" "xtime 0xBC = 0x63" "xtime 0xBD = 0x61" "xtime 0xBE = 0x67" "xtime 0xBF = 0x65"
  "xtime 0xC0 = 0x9B" "xtime 0xC1 = 0x99" "xtime 0xC2 = 0x9F" "xtime 0xC3 = 0x9D" "xtime 0xC4 = 0x93" "xtime 0xC5 = 0x91"
  "xtime 0xC6 = 0x97" "xtime 0xC7 = 0x95" "xtime 0xC8 = 0x8B" "xtime 0xC9 = 0x89" "xtime 0xCA = 0x8F" "xtime 0xCB = 0x8D"
  "xtime 0xCC = 0x83" "xtime 0xCD = 0x81" "xtime 0xCE = 0x87" "xtime 0xCF = 0x85" "xtime 0xD0 = 0xBB" "xtime 0xD1 = 0xB9"
  "xtime 0xD2 = 0xBF" "xtime 0xD3 = 0xBD" "xtime 0xD4 = 0xB3" "xtime 0xD5 = 0xB1" "xtime 0xD6 = 0xB7" "xtime 0xD7 = 0xB5"
  "xtime 0xD8 = 0xAB" "xtime 0xD9 = 0xA9" "xtime 0xDA = 0xAF" "xtime 0xDB = 0xAD" "xtime 0xDC = 0xA3" "xtime 0xDD = 0xA1"
  "xtime 0xDE = 0xA7" "xtime 0xDF = 0xA5" "xtime 0xE0 = 0xDB" "xtime 0xE1 = 0xD9" "xtime 0xE2 = 0xDF" "xtime 0xE3 = 0xDD"
  "xtime 0xE4 = 0xD3" "xtime 0xE5 = 0xD1" "xtime 0xE6 = 0xD7" "xtime 0xE7 = 0xD5" "xtime 0xE8 = 0xCB" "xtime 0xE9 = 0xC9"
  "xtime 0xEA = 0xCF" "xtime 0xEB = 0xCD" "xtime 0xEC = 0xC3" "xtime 0xED = 0xC1" "xtime 0xEE = 0xC7" "xtime 0xEF = 0xC5"
  "xtime 0xF0 = 0xFB" "xtime 0xF1 = 0xF9" "xtime 0xF2 = 0xFF" "xtime 0xF3 = 0xFD" "xtime 0xF4 = 0xF3" "xtime 0xF5 = 0xF1"
  "xtime 0xF6 = 0xF7" "xtime 0xF7 = 0xF5" "xtime 0xF8 = 0xEB" "xtime 0xF9 = 0xE9" "xtime 0xFA = 0xEF" "xtime 0xFB = 0xED"
  "xtime 0xFC = 0xE3" "xtime 0xFD = 0xE1" "xtime 0xFE = 0xE7" "xtime 0xFF = 0xE5"
  by (simp_all add: xtime_def)

lemmas aes_eval = aes128_encrypt_block_def aes128_decrypt_block_def RCON_def xor_bytes_def
  next_round_key_def cipher_def inv_cipher_def cipher_round_def final_round_def
  inv_cipher_round_def inv_final_round_def shift_rows_def inv_shift_rows_def sub_bytes_def
  inv_sub_bytes_def mix_columns_def inv_mix_columns_def mix_col_def inv_mix_col_def
  gmul9_def gmul11_def gmul13_def gmul14_def sub_byte_tab inv_sub_byte_tab xtime_tab

lemma fips197_encrypt: "aes128_encrypt_block [0x00,0x01,0x02,0x03,0x04,0x05,0x06,0x07,0x08,0x09,0x0a,0x0b,0x0c,0x0d,0x0e,0x0f]
  [0x00,0x11,0x22,0x33,0x44,0x55,0x66,0x77,0x88,0x99,0xaa,0xbb,0xcc,0xdd,0xee,0xff]
  = [0x69,0xc4,0xe0,0xd8,0x6a,0x7b,0x04,0x30,0xd8,0xcd,0xb7,0x80,0x70,0xb4,0xc5,0x5a]"
  by (simp add: aes_eval)

lemma fips197_decrypt: "aes128_decrypt_block [0x00,0x01,0x02,0x03,0x04,0x05,0x06,0x07,0x08,0x09,0x0a,0x0b,0x0c,0x0d,0x0e,0x0f]
  [0x69,0xc4,0xe0,0xd8,0x6a,0x7b,0x04,0x30,0xd8,0xcd,0xb7,0x80,0x70,0xb4,0xc5,0x5a]
  = [0x00,0x11,0x22,0x33,0x44,0x55,0x66,0x77,0x88,0x99,0xaa,0xbb,0xcc,0xdd,0xee,0xff]"
  by (simp add: aes_eval)

lemmas ecb_eval = aes_128_ecb_encrypt_def subarray_def PRIVATE_KEY_def blocks_def aes_eval

lemma pass0_code:
  "aes_128_ecb_encrypt (subarray PRIVATE_KEY 0 16)
     [0xB9, 0x43, 0x34, 0xBB, 0xBE, 0xDE, 0x9E, 0x32, 0x58, 0x00, 0xE6, 0xD8, 0xCE, 0x89, 0x7E, 0x47]
   = Inr [0x1B, 0x6E, 0x2F, 0x5C, 0xC4, 0xA1, 0x74, 0x3D, 0x1A, 0x1C, 0x5D, 0x77, 0x3C, 0x7D, 0x0B, 0xBA]"
  by (simp add: ecb_eval)

lemma pass1_code:
  "aes_128_ecb_encrypt (subarray PRIVATE_KEY 16 32)
     [0x1B, 0x6E, 0x2F, 0x5C, 0xC4, 0xA1, 0x74, 0x3D, 0x1A, 0x1C, 0x5D, 0x77, 0x3C, 0x7D, 0x0B, 0xBA]
   = Inr [0xA2, 0x03, 0x55, 0xC9, 0xBB, 0xA4, 0x0D, 0xAC, 0x77, 0x98, 0xB6, 0xFC, 0x13, 0x8F, 0xFD, 0x93]"
  by (simp add: ecb_eval)

lemma pass2_code:
  "aes_128_ecb_encrypt (subarray PRIVATE_KEY 32 48)
     [0xA2, 0x03, 0x55, 0xC9, 0xBB, 0xA4, 0x0D, 0xAC, 0x77, 0x98, 0xB6, 0xFC, 0x13, 0x8F, 0xFD, 0x93]
   = Inr [0xDF, 0xD2, 0xAF, 0x4E, 0x5F, 0xFE, 0x71, 0xC5, 0x21, 0x0D, 0x56, 0x07, 0x1F, 0x9D, 0x75, 0xB6]"
  by (simp add: ecb_eval)

lemma pass3_code:
  "aes_128_ecb_encrypt (subarray PRIVATE_KEY 48 64)
     [0xDF, 0xD2, 0xAF, 0x4E, 0x5F, 0xFE, 0x71, 0xC5, 0x21, 0x0D, 0x56, 0x07, 0x1F, 0x9D, 0x75, 0xB6]
   = Inr [0x83, 0xCB, 0xA9, 0x91, 0xF1, 0xD1, 0x8A, 0x9B, 0x34, 0xEF, 0x51, 0xA3, 0x52, 0x9C, 0x23, 0xE0]"
  by (simp add: ecb_eval)

lemma pass4_code:
  "aes_128_ecb_encrypt (subarray PRIVATE_KEY 64 80)
     [0x83, 0xCB, 0xA9, 0x91, 0xF1, 0xD1, 0x8A, 0x9B, 0x34, 0xEF, 0x51, 0xA3, 0x52, 0x9C, 0x23, 0xE0]
   = Inr [0x97, 0x4F, 0xBA, 0xAF, 0x3D, 0x2B, 0x83, 0x16, 0xEE, 0x80, 0xA9, 0x40, 0xE8, 0x64, 0xCD, 0x73]"
  by (simp add: ecb_eval)

lemma pass5_code:
  "aes_128_ecb_encrypt (subarray PRIVATE_KEY 80 96)
     [0x97, 0x4F, 0xBA, 0xAF, 0x3D, 0x2B, 0x83, 0x16, 0xEE, 0x80, 0xA9, 0x40, 0xE8, 0x64, 0xCD, 0x73]
   = Inr [0x31, 0x82, 0x3F, 0x4C, 0xA9, 0x41, 0x8C, 0xA5, 0xED, 0xB9, 0x93, 0x8A, 0x0F, 0x84, 0x99, 0xA4]"
  by (simp add: ecb_eval)

lemma pass6_code:
  "aes_128_ecb_encrypt (subarray PRIVATE_KEY 96 112)
     [0x31, 0x82, 0x3F, 0x4C, 0xA9, 0x41, 0x8C, 0xA5, 0xED, 0xB9, 0x93, 0x8A, 0x0F, 0x84, 0x99, 0xA4]
   = Inr [0x3D, 0x7C, 0x02, 0x9B, 0x58, 0xDD, 0xDD, 0x79, 0x25, 0x42, 0x45, 0x48, 0xEC, 0x4C, 0xCF, 0x30]"
  by (simp add: ecb_eval)

lemma pass7_code:
  "aes_128_ecb_encrypt (subarray PRIVATE_KEY 112 128)
     [0x3D, 0x7C, 0x02, 0x9B, 0x58, 0xDD, 0xDD, 0x79, 0x25, 0x42, 0x45, 0x48, 0xEC, 0x4C, 0xCF, 0x30]
   = Inr [0x21, 0x59, 0xE8, 0x2A, 0x78, 0x4E, 0xB1, 0x5A, 0x4E, 0x1C, 0x25, 0xE1, 0x1C, 0x68, 0x78, 0x26]"
  by (simp add: ecb_eval)

lemma pass0_test:
  "aes_128_ecb_encrypt (subarray PRIVATE_KEY 0 16)
     [0xB9, 0x43, 0x34, 0xBB, 0xBE, 0xDE, 0x9E, 0x32, 0x58, 0x4B, 0xE6, 0xD8, 0xCE, 0x89, 0x7E, 0x47]
   = Inr [0x3B, 0x65, 0x54, 0x35, 0x51, 0xD6, 0x68, 0xF6, 0xC9, 0xD4, 0x95, 0x8C, 0x0A, 0x50, 0x58, 0x22]"
  by (simp add: ecb_eval)

lemma pass1_test:
  "aes_128_ecb_encrypt (subarray PRIVATE_KEY 16 32)
     [0x3B, 0x65, 0x54, 0x35, 0x51, 0xD6, 0x68, 0xF6, 0xC9, 0xD4, 0x95, 0x8C, 0x0A, 0x50, 0x58, 0x22]
   = Inr [0xAB, 0x78, 0xA4, 0x74, 0xC9, 0x59, 0xF9, 0x41, 0x9F, 0xCD, 0x5C, 0x5A, 0xD0, 0x4F, 0x85, 0xA5]"
  by (simp add: ecb_eval)

lemma pass2_test:
  "aes_128_ecb_encrypt (subarray PRIVATE_KEY 32 48)
     [0xAB, 0x78, 0xA4, 0x74, 0xC9, 0x59, 0xF9, 0x41, 0x9F, 0xCD, 0x5C, 0x5A, 0xD0, 0x4F, 0x85, 0xA5]
   = Inr [0xA7, 0x61, 0xF1, 0x67, 0x4D, 0xC3, 0x2D, 0x08, 0xA7, 0xF9, 0xE0, 0xA2, 0x40, 0x97, 0x0A, 0x73]"
  by (simp add: ecb_eval)

lemma pass3_test:
  "aes_128_ecb_encrypt (subarray PRIVATE_KEY 48 64)
     [0xA7, 0x61, 0xF1, 0x67, 0x4D, 0xC3, 0x2D, 0x08, 0xA7, 0xF9, 0xE0, 0xA2, 0x40, 0x97, 0x0A, 0x73]
   = Inr [0x25, 0xA0, 0x6D, 0x77, 0xEB, 0x4D, 0x83, 0x39, 0x35, 0x50, 0x6A, 0x91, 0xDA, 0x0E, 0x33, 0x9C]"
  by (simp add: ecb_eval)

lemma pass4_test:
  "aes_128_ecb_encrypt (subarray PRIVATE_KEY 64 80)
     [0x25, 0xA0, 0x6D, 0x77, 0xEB, 0x4D, 0x83, 0x39, 0x35, 0x50, 0x6A, 0x91, 0xDA, 0x0E, 0x33, 0x9C]
   = Inr [0xE7, 0xE8, 0x70, 0xDF, 0xD6, 0xD1, 0x91, 0xBF, 0xE3, 0xFB, 0xD8, 0x1F, 0xB1, 0x98, 0xD5, 0xAD]"
  by (simp add: ecb_eval)

lemma pass5_test:
  "aes_128_ecb_encrypt (subarray PRIVATE_KEY 80 96)
     [0xE7, 0xE8, 0x70, 0xDF, 0xD6, 0xD1, 0x91, 0xBF, 0xE3, 0xFB, 0xD8, 0x1F, 0xB1, 0x98, 0xD5, 0xAD]
   = Inr [0x7B, 0xC7, 0xE3, 0xB2, 0x43, 0x84, 0xEB, 0x06, 0xC0, 0x33, 0x27, 0xB6, 0x67, 0x64, 0x0E, 0x39]"
  by (simp add: ecb_eval)

lemma pass6_test:
  "aes_128_ecb_encrypt (subarray PRIVATE_KEY 96 112)
     [0x7B, 0xC7, 0xE3, 0xB2, 0x43, 0x84, 0xEB, 0x06, 0xC0, 0x33, 0x27, 0xB6, 0x67, 0x64, 0x0E, 0x39]
   = Inr [0x44, 0x40, 0x96, 0xD5, 0xB3, 0x80, 0x1D, 0x0A, 0xC0, 0xDC, 0xE0, 0xA8, 0x2F, 0x95, 0x93, 0x34]"
  by (simp add: ecb_eval)

lemma pass7_test:
  "aes_128_ecb_encrypt (subarray PRIVATE_KEY 112 128)
     [0x44, 0x40, 0x96, 0xD5, 0xB3, 0x80, 0x1D, 0x0A, 0xC0, 0xDC, 0xE0, 0xA8, 0x2F, 0x95, 0x93, 0x34]
   = Inr [0xA7, 0xE5, 0x8B, 0x22, 0xF0, 0xBE, 0x06, 0xAC, 0x24, 0x24, 0x39, 0xCB, 0x94, 0x41, 0x83, 0x8E]"
  by (simp add: ecb_eval)

lemma upt_0_8: "[0..<8] = [0, 1, 2, 3, 4, 5, 6, 7 :: nat]"
  by (simp add: numeral_eq_Suc)

text \<open>
  Claim C4 (key derivation), at the identifier \<open>00:12:4B:32:89:BB\<close> of its fixed
  vector. \<open>generateKey\<close> overwrites positions 9, 7, 13 and 3 of the base constant with
  bytes 0, 3, 4 and 5 of the identifier and runs the eight cipher passes, as the claim
  describes, and derives \<open>2159E82A784EB15A4E1C25E11C687826\<close>: not the key
  \<open>A7E58B22F0BE06AC242439CB9441838E\<close> that the claim and the repository's own test expect.
\<close>

theorem generateKey_documented_identifier:
  "generateKey [0x00, 0x12, 0x4B, 0x32, 0x89, 0xBB]
     = Inr [0x21, 0x59, 0xE8, 0x2A, 0x78, 0x4E, 0xB1, 0x5A, 0x4E, 0x1C, 0x25, 0xE1, 0x1C, 0x68, 0x78, 0x26] \<and>
   generateKey [0x00, 0x12, 0x4B, 0x32, 0x89, 0xBB]
     \<noteq> Inr [0xA7, 0xE5, 0x8B, 0x22, 0xF0, 0xBE, 0x06, 0xAC, 0x24, 0x24, 0x39, 0xCB, 0x94, 0x41, 0x83, 0x8E]"
  by (simp add: generateKey_def BASE_KEY_def bindE_Inr upt_0_8
      pass0_code pass1_code pass2_code pass3_code pass4_code pass5_code pass6_code pass7_code)

text \<open>
  The expected key is what the eight passes produce when position 9 of the base constant
  receives byte 2 of the identifier (\<open>0x4B\<close>) instead of byte 0.
\<close>

lemma documented_key_from_third_identifier_byte:
  "fold (\<lambda>i result.
           bindE result (aes_128_ecb_encrypt (subarray PRIVATE_KEY (i * 16) ((i + 1) * 16))))
     [0..<8] (Inr (BASE_KEY[9 := 0x4B, 7 := 0x32, 13 := 0x89, 3 := 0xBB]))
   = Inr [0xA7, 0xE5, 0x8B, 0x22, 0xF0, 0xBE, 0x06, 0xAC, 0x24, 0x24, 0x39, 0xCB, 0x94, 0x41, 0x83, 0x8E]"
  by (simp add: BASE_KEY_def bindE_Inr upt_0_8
      pass0_test pass1_test pass2_test pass3_test pass4_test pass5_test pass6_test pass7_test)

section \<open>Decryption\<close>

lemma decrypt_after_cbc:
  assumes "aes_128_cbc_decrypt key IV message = Inr d"
  shows "decrypt message key = Inr (stripPadding_spec d)"
proof (cases "length d > 11")
  case True
  then have r: "readUInt16BE d 0 = Inr (be16 d 0)" "readUInt16BE d 4 = Inr (be16 d 4)"
    by (simp_all add: readUInt16BE_be16)
  show ?thesis
    unfolding decrypt_def assms bindE_Inr
    using True by (simp add: r bindE_Inr stripPadding_spec_def subarray_def Let_def add.commute)
next
  case False
  then show ?thesis
    unfolding decrypt_def assms bindE_Inr
    by (auto simp: stripPadding_spec_def)
qed

text \<open>
  Claim C5 (decrypt), as amended. For every key of 16 bytes and every ciphertext whose
  length is a multiple of 16, unpadded AES-128-CBC decryption with the fixed IV succeeds,
  and \<open>decrypt\<close> returns the decrypted buffer truncated to \<open>11 + dataLen\<close> bytes when its
  big-endian word at offset 0 is a start mark and \<open>11 + dataLen\<close> is at most its length, and
  the whole decrypted buffer in every other case; it never fails on such inputs.
\<close>

theorem decrypt_truncates_to_frame:
  assumes "length key = 16" and "length message mod 16 = 0"
  shows "\<exists>decrypted. aes_128_cbc_decrypt key IV message = Inr decrypted \<and>
           decrypt message key = Inr (stripPadding_spec decrypted)"
proof -
  from assms have "aes_128_cbc_decrypt key IV message = Inr (cbc_decrypt_blocks key IV (blocks message))"
    by (simp add: aes_128_cbc_decrypt_def)
  then show ?thesis using decrypt_after_cbc by blast
qed

text \<open>
  The claim as stated (every ciphertext and key, never an error) fails: on a ciphertext that
  is not a whole number of blocks the cipher raises, and \<open>decrypt\<close> passes the error on.
\<close>

theorem decrypt_unaligned_counterexample:
  "decrypt [0x65, 0xA8, 0xEB] documentedKey = Inl WrongFinalBlockLength"
  by (simp add: decrypt_def aes_128_cbc_decrypt_def bindE_def documentedKey_def)

lemma decrypt_documented_block:
  "aes_128_cbc_decrypt documentedKey IV
     [0x65, 0xA8, 0xEB, 0x37, 0x8C, 0x0D, 0x1A, 0xE0, 0x4A, 0x77, 0x1B, 0x57, 0x48, 0x67, 0xBD, 0xFE]
   = Inr [0xFE, 0x00, 0x01, 0x06, 0x00, 0x00, 0x00, 0x01, 0x06, 0x00, 0xFF,
          0x05, 0x05, 0x05, 0x05, 0x05]"
  by (simp add: aes_128_cbc_decrypt_def documentedKey_def IV_def blocks_def aes_eval)

theorem decrypt_truncates_to_frame_witness:
  "length documentedKey = 16 \<and>
   length [0x65, 0xA8, 0xEB, 0x37, 0x8C, 0x0D, 0x1A, 0xE0,
           0x4A, 0x77, 0x1B, 0x57, 0x48, 0x67, 0xBD, 0xFE :: byte] mod 16 = 0 \<and>
   decrypt [0x65, 0xA8, 0xEB, 0x37, 0x8C, 0x0D, 0x1A, 0xE0,
            0x4A, 0x77, 0x1B, 0x57, 0x48, 0x67, 0xBD, 0xFE] documentedKey
     = Inr [0xFE, 0x00, 0x01, 0x06, 0x00, 0x00, 0x00, 0x01, 0x06, 0x00, 0xFF]"
proof -
  let ?c = "[0x65, 0xA8, 0xEB, 0x37, 0x8C, 0x0D, 0x1A, 0xE0,
             0x4A, 0x77, 0x1B, 0x57, 0x48, 0x67, 0xBD, 0xFE] :: buffer"
  have k: "length documentedKey = 16" by (simp add: documentedKey_def)
  have m: "length ?c mod 16 = 0" by simp
  from decrypt_truncates_to_frame [OF k m] obtain d
    where d: "aes_128_cbc_decrypt documentedKey IV ?c = Inr d"
      and r: "decrypt ?c documentedKey = Inr (stripPadding_spec d)"
    by blast
  from d have "d = [0xFE, 0x00, 0x01, 0x06, 0x00, 0x00, 0x00, 0x01, 0x06, 0x00, 0xFF,
                    0x05, 0x05, 0x05, 0x05, 0x05]"
    by (simp add: decrypt_documented_block)
  with r have "decrypt ?c documentedKey
      = Inr [0xFE, 0x00, 0x01, 0x06, 0x00, 0x00, 0x00, 0x01, 0x06, 0x00, 0xFF]"
    by (simp add: stripPadding_spec_def be16_def)
  with k m show ?thesis by simp
qed

lemma decrypt_first_block:
  "aes_128_cbc_decrypt documentedKey IV firstBlockOfResponse
   = Inr [0xFE, 0x01, 0x02, 0x00, 0x00, 0x10, 0x00, 0x08,
          0x10, 0x01, 0x10, 0x02, 0x10, 0x03, 0x10, 0x04]"
  by (simp add: aes_128_cbc_decrypt_def documentedKey_def firstBlockOfResponse_def IV_def
      blocks_def aes_eval)

text \<open>
  The rationale given with claim C10 (the untruncated buffers that \<open>decrypt\<close> falls back
  to are still parseable, thanks to the ignored trailing bytes) fails. When only the
  first cipher block of a longer response has arrived, \<open>decrypt\<close> returns the 16
  decrypted bytes untruncated, and \<open>parsePacket\<close> rejects them as \<open>Incomplete\<close>.
\<close>

theorem decrypt_fallback_rejected_counterexample:
  "aes_128_cbc_decrypt documentedKey IV firstBlockOfResponse
     = Inr [0xFE, 0x01, 0x02, 0x00, 0x00, 0x10, 0x00, 0x08,
            0x10, 0x01, 0x10, 0x02, 0x10, 0x03, 0x10, 0x04] \<and>
   decrypt firstBlockOfResponse documentedKey
     = Inr [0xFE, 0x01, 0x02, 0x00, 0x00, 0x10, 0x00, 0x08,
            0x10, 0x01, 0x10, 0x02, 0x10, 0x03, 0x10, 0x04] \<and>
   parsePacket [0xFE, 0x01, 0x02, 0x00, 0x00, 0x10, 0x00, 0x08,
                0x10, 0x01, 0x10, 0x02, 0x10, 0x03, 0x10, 0x04] = Inl Incomplete"
  by (simp add: decrypt_after_cbc [OF decrypt_first_block] decrypt_first_block
      stripPadding_spec_def parsePacket_cascade decodeFrame_spec_def be16_def)

lemma parsePacket_Inr_facts:
  assumes "parsePacket d = Inr p"
  shows "11 \<le> length d" "be16 d 0 = 0xFE00 \<or> be16 d 0 = 0xFE01"
    "11 + be16 d 4 \<le> length d" "dataLen p = be16 d 4"
  using assms unfolding parsePacket_cascade decodeFrame_spec_def
  by (auto split: if_splits)

text \<open>
  Whatever \<open>decrypt\<close> returns and \<open>parsePacket\<close> accepts has exactly the length
  \<open>11 + dataLen\<close>: a buffer that \<open>decrypt\<close> left untruncated never parses.
\<close>

theorem decrypt_output_that_parses_is_exact:
  assumes "decrypt message key = Inr d" and "parsePacket d = Inr p"
  shows "length d = 11 + dataLen p"
proof -
  from assms(1) obtain d0 where c: "aes_128_cbc_decrypt key IV message = Inr d0"
    by (cases "aes_128_cbc_decrypt key IV message") (simp_all add: decrypt_def bindE_def)
  with assms(1) have d: "d = stripPadding_spec d0"
    by (simp add: decrypt_after_cbc)
  note f = parsePacket_Inr_facts [OF assms(2)]
  show ?thesis
  proof (cases "(be16 d0 0 = 0xFE00 \<or> be16 d0 0 = 0xFE01) \<and> 11 + be16 d0 4 \<le> length d0")
    case True
    then have t: "d = take (11 + be16 d0 4) d0"
      by (simp add: d stripPadding_spec_def)
    with True have "length d = 11 + be16 d0 4" by simp
    moreover have "be16 d 4 = be16 d0 4"
      unfolding t by (simp add: be16_def)
    ultimately show ?thesis by (simp add: f(4))
  next
    case False
    then have "d = d0" unfolding d stripPadding_spec_def by (simp only: if_False)
    with f(2,3) False show ?thesis by blast
  qed
qed

theorem decrypt_output_that_parses_is_exact_witness:
  "decrypt [0x65, 0xA8, 0xEB, 0x37, 0x8C, 0x0D, 0x1A, 0xE0,
            0x4A, 0x77, 0x1B, 0x57, 0x48, 0x67, 0xBD, 0xFE] documentedKey
     = Inr [0xFE, 0x00, 0x01, 0x06, 0x00, 0x00, 0x00, 0x01, 0x06, 0x00, 0xFF] \<and>
   parsePacket [0xFE, 0x00, 0x01, 0x06, 0x00, 0x00, 0x00, 0x01, 0x06, 0x00, 0xFF]
     = Inr \<lparr>cmdId = 0x0106, dataLen = 0, listLen = 1, data = [], isRequest = True\<rparr> \<and>
   length [0xFE, 0x00, 0x01, 0x06, 0x00, 0x00, 0x00, 0x01, 0x06, 0x00, 0xFF :: byte] = 11 + 0"
proof -
  let ?c = "[0x65, 0xA8, 0xEB, 0x37, 0x8C, 0x0D, 0x1A, 0xE0,
             0x4A, 0x77, 0x1B, 0x57, 0x48, 0x67, 0xBD, 0xFE] :: buffer"
  let ?d = "[0xFE, 0x00, 0x01, 0x06, 0x00, 0x00, 0x00, 0x01, 0x06, 0x00, 0xFF] :: buffer"
  let ?p = "\<lparr>cmdId = 0x0106, dataLen = 0, listLen = 1, data = [], isRequest = True\<rparr>"
  have a: "decrypt ?c documentedKey = Inr ?d"
    by (simp add: decrypt_after_cbc [OF decrypt_documented_block] stripPadding_spec_def be16_def)
  have b: "parsePacket ?d = Inr ?p"
    by (simp add: parsePacket_cascade decodeFrame_spec_def be16_def computeChecksum_word)
  from decrypt_output_that_parses_is_exact [OF a b] a b show ?thesis by simp
qed

section \<open>List payloads\<close>

text \<open>
  Claim C3 (list payloads stop early). On a validly framed response whose \<open>listLen\<close> is 1
  and whose payload holds no element, the db-list and group-read decoders raise a range
  error, where the claim says they stop without one; the discovery, full db-list and
  device-status decoders, which test the cursor against the payload length, return the
  empty list on the same shape of frame. A payload that ends inside an element makes the
  discovery decoder raise a range error too.
\<close>

theorem list_decoders_without_cursor_guard:
  "parseDbListDeviceResponse
     [0xFE, 0x01, 0x02, 0x00, 0x00, 0x00, 0x00, 0x01, 0x03, 0x00, 0xFF] = Inl RangeError \<and>
   parseGroupReadResponse
     [0xFE, 0x01, 0x04, 0x03, 0x00, 0x02, 0x00, 0x01, 0x12, 0x34, 0x22, 0x00, 0xFF]
     = Inl RangeError \<and>
   parseDeviceDiscoveryResponse
     [0xFE, 0x01, 0x00, 0x01, 0x00, 0x00, 0x00, 0x01, 0x00, 0x00, 0xFF] = Inr [] \<and>
   parseDbListDeviceFullResponse
     [0xFE, 0x01, 0x02, 0x03, 0x00, 0x00, 0x00, 0x01, 0x00, 0x00, 0xFF] = Inr [] \<and>
   parseDeviceStatusResponse
     [0xFE, 0x01, 0x00, 0x02, 0x00, 0x00, 0x00, 0x01, 0x03, 0x00, 0xFF] = Inr [] \<and>
   parseDeviceDiscoveryResponse
     [0xFE, 0x01, 0x00, 0x01, 0x00, 0x01, 0x00, 0x01, 0xAA, 0xAB, 0x00, 0xFF] = Inl RangeError"
  by (simp add: parseDbListDeviceResponse_def parseGroupReadResponse_def
      parseDeviceDiscoveryResponse_def parseDbListDeviceFullResponse_def
      parseDeviceStatusResponse_def parsePacket_cascade decodeFrame_spec_def be16_def
      computeChecksum_def bindE_def readUInt16BE_def
      CMD_DB_LIST_DEVICE_def CMD_GROUP_READ_def CMD_DEVICE_DISCOVERY_def
      CMD_DB_LIST_DEVICE_FULL_def CMD_DEVICE_STATUS_def)

lemma discoveryLoop_whole:
  "length dat = 14 * k \<Longrightarrow>
   \<exists>ds. discoveryLoop dat llen i acc = Inr (acc @ ds) \<and> length ds = min llen k - i"
proof (induction dat llen i acc rule: discoveryLoop.induct)
  case (1 dat llen i devices)
  show ?case
  proof (cases "i < llen \<and> i * 14 < length dat")
    case True
    with "1.prems" have ik: "i < k" by simp
    then have "i * 14 + 14 \<le> length dat" using "1.prems" by simp
    then obtain a t where a: "readUInt16BE dat (i * 14) = Inr a"
      and t: "readUInt32BE dat (i * 14 + 2) = Inr t"
      by (simp add: readUInt16BE_def readUInt32BE_def)
    from "1.IH" [OF True a t "1.prems"] obtain ds where
      ds: "discoveryLoop dat llen (i + 1)
             (devices @ [\<lparr>shortAddress = a, typeId = t, typeName = deviceTypeName t,
                category = deviceCategory t,
                macAddress = toUpperCase (toHex (subarray dat (i * 14 + 6) (i * 14 + 14)))\<rparr>])
           = Inr ((devices @ [\<lparr>shortAddress = a, typeId = t, typeName = deviceTypeName t,
                category = deviceCategory t,
                macAddress = toUpperCase (toHex (subarray dat (i * 14 + 6) (i * 14 + 14)))\<rparr>]) @ ds)"
      and l: "length ds = min llen k - (i + 1)"
      by blast
    let ?d = "\<lparr>shortAddress = a, typeId = t, typeName = deviceTypeName t,
                category = deviceCategory t,
                macAddress = toUpperCase (toHex (subarray dat (i * 14 + 6) (i * 14 + 14)))\<rparr>"
    have "discoveryLoop dat llen i devices = Inr (devices @ (?d # ds))"
      using True a t ds by (subst discoveryLoop.simps) simp
    moreover have "length (?d # ds) = min llen k - i"
      using l True ik by (auto simp: min_def)
    ultimately show ?thesis by blast
  next
    case False
    have "discoveryLoop dat llen i devices = Inr devices"
      by (subst discoveryLoop.simps) (simp only: False if_False)
    moreover from False "1.prems" have "min llen k - i = 0" by auto
    ultimately show ?thesis by simp
  qed
qed

text \<open>
  The discovery decoder on a payload of \<open>k\<close> whole 14-byte entries: it returns
  \<open>min listLen k\<close> devices and no error, whatever \<open>listLen\<close> announces.
\<close>

theorem parseDeviceDiscoveryResponse_stops_early:
  assumes "l \<le> 65535" and "length d \<le> 65535" and "length d = 14 * k"
  shows "\<exists>frame ds. createPacket CMD_DEVICE_DISCOVERY d l False = Inr frame \<and>
           parseDeviceDiscoveryResponse frame = Inr ds \<and> length ds = min l k"
proof -
  from assms(1,2) have f: "createPacket CMD_DEVICE_DISCOVERY d l False
      = Inr (wire CMD_DEVICE_DISCOVERY d l False)"
    by (intro createPacket_wire) (simp_all add: CMD_DEVICE_DISCOVERY_def)
  from assms(1,2) have p: "parsePacket (wire CMD_DEVICE_DISCOVERY d l False)
      = Inr \<lparr>cmdId = CMD_DEVICE_DISCOVERY, dataLen = length d, listLen = l, data = d,
             isRequest = False\<rparr>"
    by (intro parsePacket_wire) (simp_all add: CMD_DEVICE_DISCOVERY_def)
  from discoveryLoop_whole [OF assms(3), of l 0 "[]"] obtain ds
    where "discoveryLoop d l 0 [] = Inr ds" and "length ds = min l k"
    by auto
  with f p show ?thesis
    by (simp add: parseDeviceDiscoveryResponse_def bindE_Inr)
qed

theorem parseDeviceDiscoveryResponse_stops_early_witness:
  "(3::nat) \<le> 65535 \<and>
   length [0x28, 0xCF, 0x00, 0x00, 0x10, 0x06, 0x00, 0x12, 0x4B, 0x00, 0x1A, 0x2B, 0x3C, 0xFD :: byte]
     = 14 * 1 \<and>
   (\<exists>frame ds.
      createPacket CMD_DEVICE_DISCOVERY
        [0x28, 0xCF, 0x00, 0x00, 0x10, 0x06, 0x00, 0x12, 0x4B, 0x00, 0x1A, 0x2B, 0x3C, 0xFD]
        3 False = Inr frame \<and>
      parseDeviceDiscoveryResponse frame = Inr ds \<and> length ds = 1)"
  using parseDeviceDiscoveryResponse_stops_early [of 3
      "[0x28, 0xCF, 0x00, 0x00, 0x10, 0x06, 0x00, 0x12, 0x4B, 0x00, 0x1A, 0x2B, 0x3C, 0xFD]" 1]
  by simp

lemma idLoop_in_range:
  "base + 2 * llen \<le> length dat \<Longrightarrow>
   idLoop dat base llen i ids = Inr (ids @ map (\<lambda>j. be16 dat (base + j * 2)) [i..<llen])"
proof (induction dat base llen i ids rule: idLoop.induct)
  case (1 dat base llen i ids)
  show ?case
  proof (cases "i < llen")
    case True
    with "1.prems" have r: "readUInt16BE dat (base + i * 2) = Inr (be16 dat (base + i * 2))"
      by (intro readUInt16BE_be16) simp
    from True have u: "[i..<llen] = i # [i + 1..<llen]"
      by (simp add: upt_conv_Cons)
    from "1.IH" [OF True r "1.prems"] True r show ?thesis
      by (subst idLoop.simps) (simp add: u)
  next
    case False
    then show ?thesis by (subst idLoop.simps) simp
  qed
qed

text \<open>
  The db-list and group-read decoders on a payload that holds the \<open>listLen\<close> identifiers
  it announces (after the 2-byte group identifier for group-read): they return exactly
  those identifiers, in order.
\<close>

theorem id_list_decoders_in_range:
  assumes "l \<le> 65535" and "length d \<le> 65535"
  shows "(2 * l \<le> length d \<longrightarrow>
            (\<exists>frame. createPacket CMD_DB_LIST_DEVICE d l False = Inr frame \<and>
               parseDbListDeviceResponse frame = Inr (map (\<lambda>j. be16 d (j * 2)) [0..<l]))) \<and>
         (2 + 2 * l \<le> length d \<longrightarrow>
            (\<exists>frame. createPacket CMD_GROUP_READ d l False = Inr frame \<and>
               parseGroupReadResponse frame =
                 Inr \<lparr>groupId = be16 d 0, success = (be16 d 0 \<noteq> 0xFFFF),
                       deviceIds = map (\<lambda>j. be16 d (2 + j * 2)) [0..<l]\<rparr>))"
proof -
  have f: "createPacket c d l False = Inr (wire c d l False)" if "c < 65536" for c
    using that assms by (intro createPacket_wire) simp_all
  have p: "parsePacket (wire c d l False)
      = Inr \<lparr>cmdId = c, dataLen = length d, listLen = l, data = d, isRequest = False\<rparr>"
    if "c < 65536" for c
    using that assms by (intro parsePacket_wire) simp_all
  have a: "parseDbListDeviceResponse (wire CMD_DB_LIST_DEVICE d l False)
      = Inr (map (\<lambda>j. be16 d (j * 2)) [0..<l])" if "2 * l \<le> length d"
    using that idLoop_in_range [of 0 l d 0 "[]"]
    by (simp add: parseDbListDeviceResponse_def p CMD_DB_LIST_DEVICE_def bindE_Inr)
  have b: "parseGroupReadResponse (wire CMD_GROUP_READ d l False)
      = Inr \<lparr>groupId = be16 d 0, success = (be16 d 0 \<noteq> 0xFFFF),
              deviceIds = map (\<lambda>j. be16 d (2 + j * 2)) [0..<l]\<rparr>" if "2 + 2 * l \<le> length d"
  proof -
    from that have r: "readUInt16BE d 0 = Inr (be16 d 0)"
      by (intro readUInt16BE_be16) simp
    from that idLoop_in_range [of 2 l d 0 "[]"] show ?thesis
      by (simp add: parseGroupReadResponse_def p CMD_GROUP_READ_def bindE_Inr r)
  qed
  from a b f [of CMD_DB_LIST_DEVICE] f [of CMD_GROUP_READ] show ?thesis
    by (simp add: CMD_DB_LIST_DEVICE_def CMD_GROUP_READ_def)
qed

theorem id_list_decoders_in_range_witness:
  "(2::nat) \<le> 65535 \<and> length [0x10, 0x02, 0x28, 0xCF, 0xB4, 0x87 :: byte] \<le> 65535 \<and>
   2 + 2 * 2 \<le> length [0x10, 0x02, 0x28, 0xCF, 0xB4, 0x87 :: byte] \<and>
   (\<exists>frame. createPacket CMD_DB_LIST_DEVICE [0x10, 0x02, 0x28, 0xCF, 0xB4, 0x87] 2 False = Inr frame \<and>
      parseDbListDeviceResponse frame = Inr [0x1002, 0x28CF]) \<and>
   (\<exists>frame. createPacket CMD_GROUP_READ [0x10, 0x02, 0x28, 0xCF, 0xB4, 0x87] 2 False = Inr frame \<and>
      parseGroupReadResponse frame =
        Inr \<lparr>groupId = 0x1002, success = True, deviceIds = [0x28CF, 0xB487]\<rparr>)"
proof -
  have u: "[0..<2] = [0, 1 :: nat]" by (simp add: numeral_eq_Suc)
  from id_list_decoders_in_range [of 2 "[0x10, 0x02, 0x28, 0xCF, 0xB4, 0x87]"]
  show ?thesis by (simp add: u be16_def)
qed

section \<open>Identifier parsing\<close>

text \<open>
  Claim C8 (identifier parsing). \<open>parseMacAddress\<close> checks that 12 characters remain after
  the separators are removed, not that they are hexadecimal digits: on the inputs below it
  returns 5 bytes and 0 bytes without an error, where the claim says it fails with
  \<open>FormatError\<close> and its documentation promises 6 bytes.
\<close>

theorem parseMacAddress_accepts_non_hex:
  "parseMacAddress ''00:12:4B:32:89:ZZ'' = Inr [0x00, 0x12, 0x4B, 0x32, 0x89] \<and>
   parseMacAddress ''GGGGGGGGGGGG'' = Inr []"
  by (simp add: parseMacAddress_def hexValue_def Let_def)

lemma fromHex_length:
  "\<forall>c\<in>set xs. hexValue c \<noteq> None \<Longrightarrow> length (fromHex xs) = length xs div 2"
  by (induction xs rule: fromHex.induct) (auto split: option.splits)

text \<open>
  \<open>parseMacAddress\<close> fails with \<open>FormatError\<close> exactly when the string without its
  separators is not 12 characters long, and returns 6 bytes when those 12 characters are
  hexadecimal digits.
\<close>

theorem parseMacAddress_hex_digits:
  "(parseMacAddress s = Inl FormatError \<longleftrightarrow>
      length (filter (\<lambda>c. c \<noteq> CHR '':'' \<and> c \<noteq> CHR ''-'') s) \<noteq> 12) \<and>
   (length (filter (\<lambda>c. c \<noteq> CHR '':'' \<and> c \<noteq> CHR ''-'') s) = 12 \<and>
    (\<forall>c\<in>set (filter (\<lambda>c. c \<noteq> CHR '':'' \<and> c \<noteq> CHR ''-'') s). hexValue c \<noteq> None) \<longrightarrow>
      (\<exists>b. parseMacAddress s = Inr b \<and> length b = 6))"
  by (auto simp: parseMacAddress_def Let_def fromHex_length)

theorem parseMacAddress_hex_digits_witness:
  "length (filter (\<lambda>c. c \<noteq> CHR '':'' \<and> c \<noteq> CHR ''-'') ''00:12:4B:32:89:BB'') = 12 \<and>
   parseMacAddress ''00:12:4B:32:89:BB'' = Inr [0x00, 0x12, 0x4B, 0x32, 0x89, 0xBB] \<and>
   parseMacAddress ''00-12-4b-32-89-bb'' = Inr [0x00, 0x12, 0x4B, 0x32, 0x89, 0xBB] \<and>
   parseMacAddress ''00:12:4B:32:89'' = Inl FormatError"
  using parseMacAddress_hex_digits [of "''00:12:4B:32:89:BB''"]
    parseMacAddress_hex_digits [of "''00:12:4B:32:89''"]
  by (simp add: parseMacAddress_def hexValue_def Let_def)

section \<open>The command pipeline\<close>

lemma createPingRequest_bytes: "createPingRequest = Inr pingRequest"
  by (simp add: createPingRequest_def createPacket_wire wire_def u16be_def computeChecksum_word
      CMD_PING_def alloc_def pingRequest_def)

lemma encrypt_ping: "encrypt zeroBytes pingRequest testKey = Inr pingCiphertext"
  by (simp add: encrypt_def pad_def BLOCK_SIZE_def zeroBytes_def aes_128_cbc_encrypt_def
      pingRequest_def pingCiphertext_def testKey_def IV_def blocks_def aes_eval)

lemma busyState_eq:
  "busyState = readyState\<lparr>nextHandle := 1, armed := {0}, pendingCommand := Some 0,
                          responseBuffer := [], socketWrites := [pingCiphertext]\<rparr>"
  by (simp add: busyState_def sendCommand_def readyState_def encrypt_ping alloc_def)

text \<open>
  Claim C6 (busy and not connected), as amended. In every state that is ready (connected,
  with an encryption key) and has a command pending, \<open>sendCommand\<close> fails at once with
  \<open>CommandBusy\<close>; in every state that is not ready it fails at once with \<open>NotConnected\<close>.
  In both cases the state is returned unchanged: nothing is written to the socket, and the
  pending command, its timer and the receive buffer stay as they were.
\<close>

theorem sendCommand_rejects_without_effect:
  "(connected s \<and> encryptionKey s \<noteq> None \<and> pendingCommand s \<noteq> None \<longrightarrow>
      sendCommand randomBytes request timeoutMs s = (Inl CommandBusy, s)) \<and>
   (\<not> connected s \<or> encryptionKey s = None \<longrightarrow>
      sendCommand randomBytes request timeoutMs s = (Inl NotConnected, s))"
  by (simp add: sendCommand_def)

theorem sendCommand_rejects_without_effect_witness:
  "connected busyState \<and> encryptionKey busyState \<noteq> None \<and> pendingCommand busyState \<noteq> None \<and>
   sendCommand zeroBytes pingRequest 10000 busyState = (Inl CommandBusy, busyState) \<and>
   \<not> connected (socketClose readyState) \<and>
   sendCommand zeroBytes pingRequest 10000 (socketClose readyState)
     = (Inl NotConnected, socketClose readyState)"
proof -
  have b: "connected busyState" "encryptionKey busyState \<noteq> None" "pendingCommand busyState \<noteq> None"
    by (simp_all add: busyState_eq readyState_def)
  have c: "\<not> connected (socketClose readyState)"
    by (simp add: socketClose_def)
  from sendCommand_rejects_without_effect [of busyState zeroBytes pingRequest 10000]
    sendCommand_rejects_without_effect [of "socketClose readyState" zeroBytes pingRequest 10000]
    b c
  show ?thesis by simp
qed

text \<open>
  The claim as stated (\<open>CommandBusy\<close> in every state with a pending command) fails when the
  socket closes while a command is in flight: the readiness test comes first, and the call
  fails with \<open>NotConnected\<close>.
\<close>

theorem sendCommand_pending_not_ready_counterexample:
  "pendingCommand (socketClose busyState) \<noteq> None \<and>
   fst (sendCommand zeroBytes pingRequest 10000 (socketClose busyState)) = Inl NotConnected \<and>
   fst (sendCommand zeroBytes pingRequest 10000 (socketClose busyState)) \<noteq> Inl CommandBusy"
  by (simp add: sendCommand_def busyState_eq readyState_def socketClose_def)

lemma encrypt_errors:
  "encrypt randomBytes message key = Inl e \<Longrightarrow> e = InvalidKeyLength \<or> e = WrongFinalBlockLength"
  by (auto simp: encrypt_def aes_128_cbc_encrypt_def split: if_splits)

text \<open>
  Claim C7 (timeout), as amended. When the timer of the in-flight command fires before any
  response byte has arrived, the command's promise is rejected with \<open>CommandTimeout\<close>, the
  pending slot is cleared and the receive buffer is reset; the next \<open>sendCommand\<close> is never
  rejected with \<open>CommandBusy\<close>, and in a ready state it is accepted and written to the
  socket. Bytes that arrive after the expiry, while no command is pending, are appended to
  the receive buffer and kept there: no promise is settled and nothing is decrypted. They
  are dropped only when the next accepted \<open>sendCommand\<close> resets the buffer.
\<close>

theorem commandTimeout_frees_slot:
  assumes "pendingCommand s = Some h" and "h \<in> armed s" and "outcomes s h = None"
  shows "outcomes (commandTimeout h s) h = Some (Inl CommandTimeout) \<and>
         pendingCommand (commandTimeout h s) = None \<and>
         responseBuffer (commandTimeout h s) = [] \<and>
         socketWrites (commandTimeout h s) = socketWrites s \<and>
         fst (sendCommand randomBytes request timeoutMs (commandTimeout h s)) \<noteq> Inl CommandBusy \<and>
         (connected s \<and> encryptionKey s = Some key \<and> encrypt randomBytes request key = Inr enc \<longrightarrow>
            fst (sendCommand randomBytes request timeoutMs (commandTimeout h s)) = Inr (nextHandle s) \<and>
            pendingCommand (snd (sendCommand randomBytes request timeoutMs (commandTimeout h s)))
              = Some (nextHandle s) \<and>
            socketWrites (snd (sendCommand randomBytes request timeoutMs (commandTimeout h s)))
              = socketWrites s @ [enc]) \<and>
         handleData late (commandTimeout h s) = (commandTimeout h s)\<lparr>responseBuffer := late\<rparr> \<and>
         handleData later (handleData late (commandTimeout h s))
           = (commandTimeout h s)\<lparr>responseBuffer := late @ later\<rparr> \<and>
         (connected s \<and> encryptionKey s = Some key \<and> encrypt randomBytes request key = Inr enc \<longrightarrow>
            responseBuffer (snd (sendCommand randomBytes request timeoutMs
                                   (handleData late (commandTimeout h s)))) = [])"
  using assms
  by (auto simp: commandTimeout_def settle_def sendCommand_def handleData_def alloc_def Let_def
      split: sum.splits dest: encrypt_errors)

theorem commandTimeout_frees_slot_witness:
  "pendingCommand busyState = Some 0 \<and> 0 \<in> armed busyState \<and> outcomes busyState 0 = None \<and>
   connected busyState \<and> encryptionKey busyState = Some testKey \<and>
   encrypt zeroBytes pingRequest testKey = Inr pingCiphertext \<and>
   outcomes (commandTimeout 0 busyState) 0 = Some (Inl CommandTimeout) \<and>
   pendingCommand (commandTimeout 0 busyState) = None \<and>
   responseBuffer (commandTimeout 0 busyState) = [] \<and>
   fst (sendCommand zeroBytes pingRequest 10000 (commandTimeout 0 busyState)) = Inr 1 \<and>
   socketWrites (snd (sendCommand zeroBytes pingRequest 10000 (commandTimeout 0 busyState)))
     = [pingCiphertext, pingCiphertext] \<and>
   outcomes (handleData [0x21, 0xA4, 0xB4, 0x1A] (commandTimeout 0 busyState)) 0
     = Some (Inl CommandTimeout) \<and>
   pendingCommand (handleData [0x21, 0xA4, 0xB4, 0x1A] (commandTimeout 0 busyState)) = None \<and>
   responseBuffer (snd (sendCommand zeroBytes pingRequest 10000
                          (handleData [0x21, 0xA4, 0xB4, 0x1A] (commandTimeout 0 busyState)))) = []"
proof -
  have h: "pendingCommand busyState = Some 0" "0 \<in> armed busyState" "outcomes busyState 0 = None"
    "connected busyState" "encryptionKey busyState = Some testKey" "nextHandle busyState = 1"
    "socketWrites busyState = [pingCiphertext]"
    by (simp_all add: busyState_eq readyState_def)
  let ?t = "commandTimeout 0 busyState"
  let ?late = "[0x21, 0xA4, 0xB4, 0x1A] :: buffer"
  note r = commandTimeout_frees_slot [OF h(1-3), of zeroBytes pingRequest 10000 testKey
      pingCiphertext ?late]
  from r have t: "outcomes ?t 0 = Some (Inl CommandTimeout)" "pendingCommand ?t = None"
    "responseBuffer ?t = []"
    by blast+
  from r h(4,5) encrypt_ping
  have a: "fst (sendCommand zeroBytes pingRequest 10000 ?t) = Inr (nextHandle busyState)"
    "socketWrites (snd (sendCommand zeroBytes pingRequest 10000 ?t))
       = socketWrites busyState @ [pingCiphertext]"
    "responseBuffer (snd (sendCommand zeroBytes pingRequest 10000 (handleData ?late ?t))) = []"
    by blast+
  from r have l: "handleData ?late ?t = ?t\<lparr>responseBuffer := ?late\<rparr>"
    by blast
  have o: "outcomes (handleData ?late ?t) 0 = Some (Inl CommandTimeout)"
    "pendingCommand (handleData ?late ?t) = None"
    unfolding l by (simp_all add: t)
  from h encrypt_ping t a(3) o show ?thesis
    by (simp add: a(1,2))
qed

text \<open>
  The claim as stated (late bytes are discarded) fails: after the expiry the late bytes
  stay in the receive buffer, also across a later \<open>sendCommand\<close> that is rejected.
\<close>

theorem late_bytes_kept_counterexample:
  "pendingCommand (commandTimeout 0 busyState) = None \<and>
   responseBuffer (handleData lateBytes (commandTimeout 0 busyState)) = lateBytes \<and>
   lateBytes \<noteq> [] \<and>
   fst (sendCommand zeroBytes pingRequest 10000
          (socketClose (handleData lateBytes (commandTimeout 0 busyState)))) = Inl NotConnected \<and>
   responseBuffer (snd (sendCommand zeroBytes pingRequest 10000
          (socketClose (handleData lateBytes (commandTimeout 0 busyState))))) = lateBytes"
  by (simp add: commandTimeout_def settle_def handleData_def sendCommand_def socketClose_def
      busyState_eq readyState_def lateBytes_def alloc_def Let_def)

section \<open>Group membership\<close>

lemma UN_lessThan_Suc_shift: "(\<Union>i<Suc k. f i) = f 0 \<union> (\<Union>i<k. f (Suc i))"
  by (simp add: lessThan_Suc_eq_insert_0 image_image)

lemma readGroupsLoop_eq:
  "readGroupsLoop hub n gs acc = acc \<union> (\<Union>i<length gs. members hub (n + i) (gs ! i))"
proof (induction gs arbitrary: n acc)
  case Nil
  then show ?case by simp
next
  case (Cons g rest)
  have "readGroupsLoop hub n (g # rest) acc = readGroupsLoop hub (n + 1) rest (acc \<union> members hub n g)"
    by (simp add: members_def split: sum.splits)
  also have "\<dots> = (acc \<union> members hub n g) \<union> (\<Union>i<length rest. members hub (n + 1 + i) (rest ! i))"
    by (rule Cons.IH)
  also have "\<dots> = acc \<union> (\<Union>i<length (g # rest). members hub (n + i) ((g # rest) ! i))"
    by (simp add: UN_lessThan_Suc_shift Un_assoc)
  finally show ?case .
qed

text \<open>
  Claim C9 (group membership). \<open>getGroupedDeviceIds\<close> never rejects. When listing the
  groups fails it returns the empty set. Otherwise it returns the union, over the listed
  groups in order, of the members of each group whose read succeeds; a group whose read
  fails contributes nothing and the others are still included.
\<close>

theorem getGroupedDeviceIds_partial_results:
  "(\<exists>grouped. getGroupedDeviceIds hub = Inr grouped) \<and>
   (\<forall>err. listGroups hub 0 = Inl err \<longrightarrow> getGroupedDeviceIds hub = Inr {}) \<and>
   (\<forall>groupIds. listGroups hub 0 = Inr groupIds \<longrightarrow>
      getGroupedDeviceIds hub =
        Inr (\<Union>i<length groupIds.
               case readGroup hub (Suc i) (groupIds ! i) of
                 Inl err \<Rightarrow> {}
               | Inr r \<Rightarrow> set (deviceIds r)))"
  by (auto simp: getGroupedDeviceIds_def readGroupsLoop_eq members_def split: sum.splits)

lemma UN_lessThan_2: "(\<Union>i<Suc (Suc 0). f i) = f 0 \<union> f (Suc 0)"
  by (auto simp: less_Suc_eq)

theorem getGroupedDeviceIds_partial_results_witness:
  "listGroups exampleHub 0 = Inr [0x1001, 0x1002] \<and>
   readGroup exampleHub 1 0x1001 = Inl CommandTimeout \<and>
   getGroupedDeviceIds exampleHub = Inr {0x28CF, 0xB487} \<and>
   listGroups deadHub 0 = Inl NotConnected \<and>
   getGroupedDeviceIds deadHub = Inr {}"
proof -
  have req: "createGroupListRequest = Inr (wire CMD_GROUP_LIST [] 0 True)"
    by (simp add: createGroupListRequest_def createPacket_wire alloc_def CMD_GROUP_LIST_def)
  have rreq: "createGroupReadRequest g = Inr (wire CMD_GROUP_READ (u16be g) 0 True)"
    if "g < 65536" for g
    using that
    by (simp add: createGroupReadRequest_def writeUInt16BE_def alloc_def overwrite_def
        bindE_Inr createPacket_wire u16be_def CMD_GROUP_READ_def)
  have l: "listGroups exampleHub 0 = Inr [0x1001, 0x1002]"
    by (simp add: listGroups_def req bindE_Inr exampleHub_def parseGroupListResponse_def
        parsePacket_cascade decodeFrame_spec_def be16_def computeChecksum_word
        CMD_GROUP_LIST_def readUInt16BE_def)
  have r1: "readGroup exampleHub (Suc 0) 0x1001 = Inl CommandTimeout"
    by (simp add: readGroup_def rreq bindE_Inr exampleHub_def bindE_def)
  have r2: "readGroup exampleHub (Suc (Suc 0)) 0x1002
      = Inr \<lparr>groupId = 0x1002, success = True, deviceIds = [0x28CF, 0xB487]\<rparr>"
    by (simp add: readGroup_def rreq bindE_Inr exampleHub_def parseGroupReadResponse_def
        parsePacket_cascade decodeFrame_spec_def be16_def computeChecksum_word
        CMD_GROUP_READ_def readUInt16BE_def)
  have dl: "listGroups deadHub 0 = Inl NotConnected"
    by (simp add: listGroups_def req bindE_Inr deadHub_def bindE_def)
  from getGroupedDeviceIds_partial_results [of exampleHub] l
  have "getGroupedDeviceIds exampleHub =
      Inr (\<Union>i<length [0x1001, 0x1002 :: nat].
             case readGroup exampleHub (Suc i) ([0x1001, 0x1002] ! i) of
               Inl err \<Rightarrow> {}
             | Inr r \<Rightarrow> set (deviceIds r))"
    by blast
  then have "getGroupedDeviceIds exampleHub =
      Inr ((case readGroup exampleHub (Suc 0) 0x1001 of
              Inl err \<Rightarrow> {}
            | Inr r \<Rightarrow> set (deviceIds r)) \<union>
           (case readGroup exampleHub (Suc (Suc 0)) 0x1002 of
              Inl err \<Rightarrow> {}
            | Inr r \<Rightarrow> set (deviceIds r)))"
    by (simp add: UN_lessThan_2)
  then have g: "getGroupedDeviceIds exampleHub = Inr {0x28CF, 0xB487}"
    unfolding r1 r2 by simp
  from getGroupedDeviceIds_partial_results [of deadHub] dl
  have d: "getGroupedDeviceIds deadHub = Inr {}"
    by blast
  from l r1 g dl d show ?thesis by simp
qed

end
